theory Spec2Isabelle
  imports Main
begin

section \<open>The state manager of the finance simulator\<close>

text \<open>
  A shallow embedding of the class \<open>StateManager\<close> (state-manager.ts). The class owns one
  \<open>AppState\<close> object, a \<open>FinanceEngine\<close>, an array of subscriber callbacks and a
  \<open>Map\<close> from serialized datasets to validation results. Its collaborators
  (\<open>FinanceEngine\<close>, \<open>FinancialDataValidator\<close>, \<open>JSON.stringify\<close>,
  \<open>localStorage\<close>, \<open>Date\<close> and the subscriber callbacks) are parameters of the
  model; every one of them that can throw in the source can throw in the model.

  Conventions of the embedding:
  \<^item> values typed \<open>any\<close> in the source are values of a type parameter \<open>'a\<close>; a field
    that can hold \<open>null\<close> or \<open>undefined\<close> is an \<open>option\<close>;
  \<^item> a thrown value is an \<open>exn\<close>: \<open>Nullish\<close> is \<open>null\<close> or \<open>undefined\<close>, and
    \<open>Exn s\<close> is any other value, with \<open>s\<close> the text that \<open>error.message\<close> gives in a
    template string;
  \<^item> a method is a function from the manager to an outcome (\<open>Inl\<close> an exception that
    escapes, \<open>Inr\<close> the returned value) and the manager afterwards;
  \<^item> a subscriber callback, when called, may call \<open>subscribe\<close> and functions that
    \<open>subscribe\<close> returned, and may throw; it calls no other method of the manager and
    does not assign to the state object it is given;
  \<^item> the fields \<open>clock_reads\<close> and \<open>events\<close> of the manager are not fields of the
    class: the first counts the readings of the clock, the second records the observable
    effects in the order they happen.
\<close>

subsection \<open>Data\<close>

datatype exn = Exn string | Nullish

text \<open>Reading \<open>error.message\<close> in a handler: on \<open>null\<close> or \<open>undefined\<close> the read itself
  throws a \<open>TypeError\<close>.\<close>

definition null_TypeError :: exn where
  "null_TypeError = Exn ''Cannot read properties of null''"

definition error_message :: "exn \<Rightarrow> exn + string" where
  "error_message e = (case e of Exn s \<Rightarrow> Inr s | Nullish \<Rightarrow> Inl null_TypeError)"

record validation_result =
  isValid :: bool
  errors :: "string list"
  warnings :: "string list"

text \<open>\<open>scenarios\<close> is a plain object, or \<open>undefined\<close> after a \<open>DATA_UPDATE\<close> whose payload
  has none.\<close>

record 'a app_state =
  data :: "'a option"
  scenarios :: "(string \<rightharpoonup> 'a) option"
  currentScenario :: string
  computationResult :: "'a option"
  validationResults :: "validation_result list"
  isLoading :: bool
  error :: "string option"
  lastUpdated :: string

text \<open>The six kinds of update, each with the fields of its payload. The payload is typed
  \<open>any\<close>: \<open>NULL_PAYLOAD\<close> is an update of any kind whose payload is \<open>null\<close> or
  \<open>undefined\<close>.\<close>

datatype 'a state_update =
    DATA_UPDATE "'a option" "(string \<rightharpoonup> 'a) option"
  | SCENARIO_UPDATE string
  | COMPUTATION_UPDATE "'a option"
  | VALIDATION_UPDATE "validation_result list"
  | ERROR_UPDATE "string option"
  | LOADING_UPDATE bool
  | NULL_PAYLOAD

text \<open>The object \<open>{ success, error? }\<close> that \<open>importJSON\<close> and \<open>importData\<close> return.\<close>

record import_result =
  success :: bool
  import_error :: "string option"

text \<open>
  Observable effects: \<open>Transition u\<close> marks a call of \<open>updateState\<close> with \<open>u\<close>,
  \<open>Notify cb s\<close> the call of subscriber \<open>cb\<close> with the state, which is \<open>s\<close> at
  the time of the call,
  \<open>ValidateAll d\<close> a call of \<open>FinancialDataValidator.validateAllData\<close> on \<open>d\<close>, and
  \<open>ConsoleError l\<close> a \<open>console.error\<close> with the label \<open>l\<close>.
\<close>

datatype 'a event =
    Transition "'a state_update"
  | Notify nat "'a app_state"
  | ValidateAll "'a option"
  | ConsoleError string

subsection \<open>Collaborators\<close>

text \<open>
  \<open>'w\<close> is the world outside the manager: the engine instance behind
  \<open>this.financeEngine\<close> and \<open>localStorage\<close>. An engine call takes the world and gives
  its outcome and the world afterwards, so an engine may change its dataset and then throw.
  The validators and \<open>JSON.stringify\<close> are functions of their argument.
  \<open>js_truthy v\<close> says whether the value \<open>v\<close> counts as true in a condition.
  \<open>date_now n\<close> is what the clock shows at its \<open>n\<close>-th reading. A subscriber
  callback is known by its identity, a number. When callback \<open>cb\<close> is called with the
  state \<open>s\<close>, it first makes the calls \<open>callback_calls C cb s\<close> (\<open>CallSubscribe c\<close> is
  \<open>stateManager.subscribe(c)\<close>, \<open>CallUnsubscribe c\<close> a call of a function that
  \<open>subscribe(c)\<close> returned) and then throws \<open>callback_throws C cb s\<close>, if anything.
\<close>

datatype subscription_call = CallSubscribe nat | CallUnsubscribe nat

record ('a, 'w) collaborators =
  fe_new :: "'w \<Rightarrow> (exn + unit) \<times> 'w"
  fe_init :: "'w \<Rightarrow> (exn + unit) \<times> 'w"
  fe_getData :: "'w \<Rightarrow> (exn + 'a option) \<times> 'w"
  fe_getScenarios :: "'w \<Rightarrow> (exn + (string \<rightharpoonup> 'a) option) \<times> 'w"
  fe_updateMenu :: "string \<Rightarrow> 'a \<Rightarrow> 'w \<Rightarrow> (exn + unit) \<times> 'w"
  fe_updateSalesModel :: "'a \<Rightarrow> 'w \<Rightarrow> (exn + unit) \<times> 'w"
  fe_updateUtilities :: "'a list \<Rightarrow> 'w \<Rightarrow> (exn + unit) \<times> 'w"
  fe_updateLabor :: "'a list \<Rightarrow> 'w \<Rightarrow> (exn + unit) \<times> 'w"
  fe_updateFixedCosts :: "'a list \<Rightarrow> 'w \<Rightarrow> (exn + unit) \<times> 'w"
  fe_compute :: "'w \<Rightarrow> (exn + 'a option) \<times> 'w"
  fe_importJSON :: "string \<Rightarrow> 'w \<Rightarrow> (exn + import_result) \<times> 'w"
  fe_exportJSON :: "'w \<Rightarrow> (exn + string) \<times> 'w"
  fe_save :: "'w \<Rightarrow> (exn + unit) \<times> 'w"
  fdv_validateMenuItem :: "'a \<Rightarrow> exn + validation_result"
  fdv_validateSalesModel :: "'a \<Rightarrow> exn + validation_result"
  fdv_validateUtilityItem :: "'a \<Rightarrow> exn + validation_result"
  fdv_validateLaborItem :: "'a \<Rightarrow> exn + validation_result"
  fdv_validateFixedCost :: "'a \<Rightarrow> exn + validation_result"
  fdv_validateAllData :: "'a option \<Rightarrow> exn + validation_result"
  json_stringify :: "'a option \<Rightarrow> exn + string"
  js_truthy :: "'a \<Rightarrow> bool"
  localStorage_removeItem :: "string \<Rightarrow> 'w \<Rightarrow> (exn + unit) \<times> 'w"
  date_now :: "nat \<Rightarrow> string"
  callback_calls :: "nat \<Rightarrow> 'a app_state \<Rightarrow> subscription_call list"
  callback_throws :: "nat \<Rightarrow> 'a app_state \<Rightarrow> exn option"

subsection \<open>The manager and its methods as actions\<close>

record ('a, 'w) manager =
  state :: "'a app_state"
  world :: 'w
  subscribers :: "nat list"
  validationCache :: "string \<rightharpoonup> validation_result"
  clock_reads :: nat
  events :: "'a event list"

type_synonym ('a, 'w, 'x) action = "('a, 'w) manager \<Rightarrow> (exn + 'x) \<times> ('a, 'w) manager"

definition returns :: "'x \<Rightarrow> ('a, 'w, 'x) action" where
  "returns x = (\<lambda>m. (Inr x, m))"

definition throw :: "exn \<Rightarrow> ('a, 'w, 'x) action" where
  "throw e = (\<lambda>m. (Inl e, m))"

definition and_then :: "('a, 'w, 'x) action \<Rightarrow> ('x \<Rightarrow> ('a, 'w, 'y) action) \<Rightarrow> ('a, 'w, 'y) action" where
  "and_then act k = (\<lambda>m. case act m of (Inl e, m') \<Rightarrow> (Inl e, m') | (Inr x, m') \<Rightarrow> k x m')"

definition try_catch :: "('a, 'w, 'x) action \<Rightarrow> (exn \<Rightarrow> ('a, 'w, 'x) action) \<Rightarrow> ('a, 'w, 'x) action" where
  "try_catch body handler = (\<lambda>m. case body m of (Inl e, m') \<Rightarrow> handler e m' | (Inr x, m') \<Rightarrow> (Inr x, m'))"

definition call_world :: "('w \<Rightarrow> (exn + 'x) \<times> 'w) \<Rightarrow> ('a, 'w, 'x) action" where
  "call_world f = (\<lambda>m. case f (world m) of (r, w) \<Rightarrow> (r, m\<lparr>world := w\<rparr>))"

definition call_pure :: "exn + 'x \<Rightarrow> ('a, 'w, 'x) action" where
  "call_pure r = (\<lambda>m. (r, m))"

definition emit :: "'a event \<Rightarrow> ('a, 'w, unit) action" where
  "emit ev = (\<lambda>m. (Inr (), m\<lparr>events := events m @ [ev]\<rparr>))"

definition console_error :: "string \<Rightarrow> ('a, 'w, unit) action" where
  "console_error label = emit (ConsoleError label)"

subsection \<open>subscribe\<close>

text \<open>\<open>Array.prototype.indexOf\<close> (\<open>-1\<close> when absent) and \<open>splice(index, 1)\<close>.\<close>

fun indexOf :: "'b list \<Rightarrow> 'b \<Rightarrow> int" where
  "indexOf [] x = - 1"
| "indexOf (y # ys) x =
     (if y = x then 0 else (let i = indexOf ys x in if i = - 1 then - 1 else i + 1))"

definition splice1 :: "'b list \<Rightarrow> nat \<Rightarrow> 'b list" where
  "splice1 xs i = take i xs @ drop (Suc i) xs"

text \<open>The function that \<open>subscribe(callback)\<close> returns.\<close>

definition unsubscribe :: "nat \<Rightarrow> ('a, 'w, unit) action" where
  "unsubscribe callback = (\<lambda>m.
     (let index = indexOf (subscribers m) callback in
      if index > - 1 then (Inr (), m\<lparr>subscribers := splice1 (subscribers m) (nat index)\<rparr>)
      else (Inr (), m)))"

definition subscribe :: "nat \<Rightarrow> ('a, 'w, ('a, 'w, unit) action) action" where
  "subscribe callback = (\<lambda>m.
     (Inr (unsubscribe callback), m\<lparr>subscribers := subscribers m @ [callback]\<rparr>))"

subsection \<open>getInitialState and updateState\<close>

definition getInitialState :: "string \<Rightarrow> 'a app_state" where
  "getInitialState now = \<lparr> data = None, scenarios = Some Map.empty, currentScenario = ''base'',
     computationResult = None, validationResults = [], isLoading = False, error = None,
     lastUpdated = now \<rparr>"

text \<open>The \<open>switch\<close> of \<open>updateState\<close>. Each case reads a field of \<open>update.payload\<close>,
  which throws a \<open>TypeError\<close> when the payload is \<open>null\<close> or \<open>undefined\<close>.\<close>

fun apply_update :: "'a state_update \<Rightarrow> 'a app_state \<Rightarrow> exn + 'a app_state" where
  "apply_update (DATA_UPDATE d sc) s = Inr (s\<lparr>data := d, scenarios := sc\<rparr>)"
| "apply_update (SCENARIO_UPDATE scenarioId) s = Inr (s\<lparr>currentScenario := scenarioId\<rparr>)"
| "apply_update (COMPUTATION_UPDATE r) s = Inr (s\<lparr>computationResult := r\<rparr>)"
| "apply_update (VALIDATION_UPDATE rs) s = Inr (s\<lparr>validationResults := rs\<rparr>)"
| "apply_update (ERROR_UPDATE e) s = Inr (s\<lparr>error := e, isLoading := False\<rparr>)"
| "apply_update (LOADING_UPDATE l) s =
     Inr (if l then s\<lparr>isLoading := l, error := None\<rparr> else s\<lparr>isLoading := l\<rparr>)"
| "apply_update NULL_PAYLOAD s = Inl null_TypeError"

fun is_data_update :: "'a state_update \<Rightarrow> bool" where
  "is_data_update (DATA_UPDATE d sc) = True"
| "is_data_update u = False"

text \<open>One call made by a callback while it runs.\<close>

fun perform_call :: "subscription_call \<Rightarrow> ('a, 'w, unit) action" where
  "perform_call (CallSubscribe c) = and_then (subscribe c) (\<lambda>_. returns ())"
| "perform_call (CallUnsubscribe c) = unsubscribe c"

fun for_each :: "('b \<Rightarrow> ('a, 'w, unit) action) \<Rightarrow> 'b list \<Rightarrow> ('a, 'w, unit) action" where
  "for_each f [] = returns ()"
| "for_each f (x # xs) = and_then (f x) (\<lambda>_. for_each f xs)"

text \<open>One turn of the \<open>forEach\<close> of \<open>notifySubscribers\<close>: the callback runs inside its own
  \<open>try\<close>, and what it throws is logged.\<close>

definition invoke_callback :: "('a, 'w) collaborators \<Rightarrow> nat \<Rightarrow> ('a, 'w, unit) action" where
  "invoke_callback C cb =
     try_catch
       (\<lambda>m. and_then (emit (Notify cb (state m)))
              (\<lambda>_. and_then (for_each perform_call (callback_calls C cb (state m)))
              (\<lambda>_. case callback_throws C cb (state m) of
                      Some e \<Rightarrow> throw e
                    | None \<Rightarrow> returns ())) m)
       (\<lambda>e. console_error ''Error in subscriber callback:'')"

text \<open>
  \<open>this.subscribers.forEach(...)\<close>: the length is read once, at the start; at each index
  below it the element that is in the array at that moment is visited, and an index the
  array no longer has is passed over. So an element a callback removes moves the later
  ones down, and the one that lands on the current index is not visited.
\<close>

function forEach_from :: "('a, 'w) collaborators \<Rightarrow> nat \<Rightarrow> nat \<Rightarrow> ('a, 'w, unit) action" where
  "forEach_from C i len m =
     (if i < len then
        (if i < length (subscribers m) then
           (case invoke_callback C (subscribers m ! i) m of
              (Inl e, m') \<Rightarrow> (Inl e, m')
            | (Inr x, m') \<Rightarrow> forEach_from C (Suc i) len m')
         else forEach_from C (Suc i) len m)
      else (Inr (), m))"
  by pat_completeness auto
termination
  by (relation "measure (\<lambda>(C, i, len, m). len - i)") auto

declare forEach_from.simps [simp del]

definition notifySubscribers :: "('a, 'w) collaborators \<Rightarrow> ('a, 'w, unit) action" where
  "notifySubscribers C = (\<lambda>m. forEach_from C 0 (length (subscribers m)) m)"

definition autoSave :: "('a, 'w) collaborators \<Rightarrow> ('a, 'w, unit) action" where
  "autoSave C = try_catch (call_world (fe_save C)) (\<lambda>e. console_error ''Auto-save failed:'')"

text \<open>The body of the \<open>try\<close> of \<open>updateState\<close>. \<open>Transition update\<close> is recorded once
  the \<open>switch\<close> is through.\<close>

definition updateState_try :: "('a, 'w) collaborators \<Rightarrow> 'a state_update \<Rightarrow> ('a, 'w, unit) action" where
  "updateState_try C update =
     and_then (\<lambda>m. case apply_update update (state m) of
                      Inl e \<Rightarrow> (Inl e, m)
                    | Inr s \<Rightarrow> (Inr (), m\<lparr>state := s\<rparr>)) (\<lambda>_.
     and_then (emit (Transition update)) (\<lambda>_.
     and_then (\<lambda>m. (Inr (), m\<lparr>state := (state m)\<lparr>lastUpdated := date_now C (clock_reads m)\<rparr>,
                                 clock_reads := Suc (clock_reads m)\<rparr>)) (\<lambda>_.
     and_then (notifySubscribers C) (\<lambda>_.
     if is_data_update update then autoSave C else returns ()))))"

text \<open>
  \<open>updateState\<close> is \<open>try { body } catch (error) { console.error(...);
  this.updateState(ERROR_UPDATE) }\<close>: the handler reads \<open>error.message\<close> and calls the
  method again. The recursion ends because the body throws only for a payload that is
  \<open>null\<close> or \<open>undefined\<close> (each callback and the save run inside a \<open>try\<close> of their
  own), and the update the handler passes has a payload.
\<close>

function updateState :: "('a, 'w) collaborators \<Rightarrow> 'a state_update \<Rightarrow> ('a, 'w, unit) action" where
  "updateState C update m =
     (case updateState_try C update m of
        (Inr x, m') \<Rightarrow> (Inr x, m')
      | (Inl e, m') \<Rightarrow>
          (case console_error ''Error updating state:'' m' of
             (logged, m'') \<Rightarrow>
               (case error_message e of
                  Inl thrown \<Rightarrow> (Inl thrown, m'')
                | Inr msg \<Rightarrow>
                    updateState C (ERROR_UPDATE (Some (''State update failed: '' @ msg))) m'')))"
  by pat_completeness auto
termination
proof (relation "measure (\<lambda>(C, update, m). if update = NULL_PAYLOAD then 1 else 0)")
  show "wf (measure (\<lambda>(C :: ('a, 'w) collaborators, update :: 'a state_update, m :: ('a, 'w) manager).
      if update = NULL_PAYLOAD then 1 else 0))"
    by simp
next
  fix C :: "('a, 'w) collaborators" and update :: "'a state_update"
    and m m' m'' :: "('a, 'w) manager" and outcome e logged msg
  assume thrown: "(outcome, m') = updateState_try C update m" "outcome = Inl e"
  have callback: "fst (invoke_callback C0 cb m0) = Inr ()"
    for C0 :: "('a, 'w) collaborators" and cb and m0 :: "('a, 'w) manager"
    by (simp add: invoke_callback_def try_catch_def console_error_def emit_def
        split: prod.splits sum.splits)
  have each: "fst (forEach_from C0 i len m0) = Inr ()"
    for C0 :: "('a, 'w) collaborators" and i len and m0 :: "('a, 'w) manager"
  proof (induction C0 i len m0 rule: forEach_from.induct)
    case (1 C0 i len m0)
    show ?case
      using "1.IH" callback [of C0 "subscribers m0 ! i" m0]
      by (subst forEach_from.simps) (auto split: prod.splits sum.splits)
  qed
  have save: "fst (autoSave C m0) = Inr ()" for m0 :: "('a, 'w) manager"
    by (simp add: autoSave_def try_catch_def call_world_def console_error_def emit_def
        split: prod.splits sum.splits)
  have notified: "forEach_from C i len m0 = (Inl x, m1) \<Longrightarrow> False"
    for i len x and m0 m1 :: "('a, 'w) manager"
    using each [of C i len m0] by simp
  have saved: "autoSave C m0 = (Inl x, m1) \<Longrightarrow> False" for x and m0 m1 :: "('a, 'w) manager"
    using save [of m0] by simp
  have "update \<noteq> NULL_PAYLOAD \<Longrightarrow> fst (updateState_try C update m) = Inr ()"
    by (cases update)
      (auto simp: updateState_try_def and_then_def emit_def notifySubscribers_def returns_def
        save split: prod.splits sum.splits dest: notified saved)
  with thrown have "update = NULL_PAYLOAD" by (metis fst_conv sum.distinct(1))
  then show "((C, ERROR_UPDATE (Some (''State update failed: '' @ msg)), m''), C, update, m)
      \<in> measure (\<lambda>(C, update, m). if update = NULL_PAYLOAD then 1 else 0)"
    by simp
qed

declare updateState.simps [simp del]

text \<open>The handler that the methods share: \<open>catch (error) { this.updateState({ type:
  'ERROR_UPDATE', payload: { error: label + error.message } }) }\<close>. The message is read
  before \<open>updateState\<close> is called.\<close>

definition error_handler :: "('a, 'w) collaborators \<Rightarrow> string \<Rightarrow> exn \<Rightarrow> ('a, 'w, unit) action" where
  "error_handler C label e =
     and_then (call_pure (error_message e)) (\<lambda>msg.
     updateState C (ERROR_UPDATE (Some (label @ msg))))"

subsection \<open>Computation and validation\<close>

definition validateAllData :: "('a, 'w) collaborators \<Rightarrow> ('a, 'w, unit) action" where
  "validateAllData C =
     try_catch
       (\<lambda>m0. and_then (call_pure (json_stringify C (data (state m0)))) (\<lambda>dataHash m.
          case validationCache m dataHash of
            Some cachedResult \<Rightarrow> updateState C (VALIDATION_UPDATE [cachedResult]) m
          | None \<Rightarrow>
              and_then (emit (ValidateAll (data (state m)))) (\<lambda>_.
              and_then (call_pure (fdv_validateAllData C (data (state m)))) (\<lambda>validationResult.
              and_then (\<lambda>m'. (Inr (), m'\<lparr>validationCache :=
                                  (validationCache m')(dataHash \<mapsto> validationResult)\<rparr>)) (\<lambda>_.
              updateState C (VALIDATION_UPDATE [validationResult])))) m) m0)
       (\<lambda>e. console_error ''Validation failed:'')"

definition computeAndValidate_try :: "('a, 'w) collaborators \<Rightarrow> ('a, 'w, unit) action" where
  "computeAndValidate_try C =
     and_then (call_world (fe_compute C)) (\<lambda>computationResult.
     and_then (updateState C (COMPUTATION_UPDATE computationResult)) (\<lambda>_.
     and_then (validateAllData C) (\<lambda>_.
     updateState C (LOADING_UPDATE False))))"

definition computeAndValidate :: "('a, 'w) collaborators \<Rightarrow> ('a, 'w, unit) action" where
  "computeAndValidate C =
     try_catch (computeAndValidate_try C)
       (error_handler C ''Computation failed: '')"

subsection \<open>Data management methods\<close>

text \<open>\<open>Array.prototype.join\<close>, and \<open>Array.prototype.map\<close> with a callback that may throw.
  Each method is a \<open>try\<close> with a handler; the body of the \<open>try\<close> has the method's name
  with \<open>_try\<close> added.\<close>

fun join :: "string \<Rightarrow> string list \<Rightarrow> string" where
  "join sep [] = []"
| "join sep [x] = x"
| "join sep (x # y # ys) = x @ sep @ join sep (y # ys)"

fun map_throwing :: "('b \<Rightarrow> exn + 'c) \<Rightarrow> 'b list \<Rightarrow> exn + 'c list" where
  "map_throwing f [] = Inr []"
| "map_throwing f (x # xs) =
     (case f x of
        Inl e \<Rightarrow> Inl e
      | Inr y \<Rightarrow> (case map_throwing f xs of Inl e \<Rightarrow> Inl e | Inr ys \<Rightarrow> Inr (y # ys)))"

definition updateMenu_try :: "('a, 'w) collaborators \<Rightarrow> string \<Rightarrow> 'a \<Rightarrow> ('a, 'w, unit) action" where
  "updateMenu_try C menuId updates =
     and_then (updateState C (LOADING_UPDATE True)) (\<lambda>_.
     and_then (call_pure (fdv_validateMenuItem C updates)) (\<lambda>validationResult.
     if \<not> isValid validationResult then
       updateState C (ERROR_UPDATE (Some (''Menu validation failed: ''
         @ join '', '' (errors validationResult))))
     else
       and_then (call_world (fe_updateMenu C menuId updates)) (\<lambda>_.
       and_then (call_world (fe_getData C)) (\<lambda>d.
       and_then (\<lambda>m. updateState C (DATA_UPDATE d (scenarios (state m))) m) (\<lambda>_.
       computeAndValidate C)))))"

definition updateMenu :: "('a, 'w) collaborators \<Rightarrow> string \<Rightarrow> 'a \<Rightarrow> ('a, 'w, unit) action" where
  "updateMenu C menuId updates =
     try_catch (updateMenu_try C menuId updates)
       (error_handler C ''Failed to update menu: '')"

definition updateSalesModel_try :: "('a, 'w) collaborators \<Rightarrow> 'a \<Rightarrow> ('a, 'w, unit) action" where
  "updateSalesModel_try C updates =
     and_then (updateState C (LOADING_UPDATE True)) (\<lambda>_.
     and_then (call_pure (fdv_validateSalesModel C updates)) (\<lambda>validationResult.
     if \<not> isValid validationResult then
       updateState C (ERROR_UPDATE (Some (''Sales model validation failed: ''
         @ join '', '' (errors validationResult))))
     else
       and_then (call_world (fe_updateSalesModel C updates)) (\<lambda>_.
       and_then (call_world (fe_getData C)) (\<lambda>d.
       and_then (\<lambda>m. updateState C (DATA_UPDATE d (scenarios (state m))) m) (\<lambda>_.
       computeAndValidate C)))))"

definition updateSalesModel :: "('a, 'w) collaborators \<Rightarrow> 'a \<Rightarrow> ('a, 'w, unit) action" where
  "updateSalesModel C updates =
     try_catch (updateSalesModel_try C updates)
       (error_handler C ''Failed to update sales model: '')"

text \<open>\<open>updateUtilities\<close>, \<open>updateLabor\<close> and \<open>updateFixedCosts\<close> have one body in the
  source, written three times; they differ in the validator, the engine call and the two
  labels, which are the parameters of \<open>update_list_try\<close>.\<close>

definition update_list_try ::
  "('a, 'w) collaborators \<Rightarrow> ('a \<Rightarrow> exn + validation_result) \<Rightarrow> ('a list \<Rightarrow> 'w \<Rightarrow> (exn + unit) \<times> 'w)
   \<Rightarrow> string \<Rightarrow> 'a list \<Rightarrow> ('a, 'w, unit) action" where
  "update_list_try C validate engine_update invalid_label items =
     and_then (updateState C (LOADING_UPDATE True)) (\<lambda>_.
     and_then (call_pure (map_throwing validate items)) (\<lambda>validationResults.
     let hasErrors = list_ex (\<lambda>result. \<not> isValid result) validationResults in
     if hasErrors then
       (let errors' = concat (map errors (filter (\<lambda>result. \<not> isValid result) validationResults))
        in updateState C (ERROR_UPDATE (Some (invalid_label @ join '', '' errors'))))
     else
       and_then (call_world (engine_update items)) (\<lambda>_.
       and_then (call_world (fe_getData C)) (\<lambda>d.
       and_then (\<lambda>m. updateState C (DATA_UPDATE d (scenarios (state m))) m) (\<lambda>_.
       computeAndValidate C)))))"

definition updateUtilities_try :: "('a, 'w) collaborators \<Rightarrow> 'a list \<Rightarrow> ('a, 'w, unit) action" where
  "updateUtilities_try C utilities =
     update_list_try C (fdv_validateUtilityItem C) (fe_updateUtilities C)
       ''Utility validation failed: '' utilities"

definition updateUtilities :: "('a, 'w) collaborators \<Rightarrow> 'a list \<Rightarrow> ('a, 'w, unit) action" where
  "updateUtilities C utilities =
     try_catch (updateUtilities_try C utilities)
       (error_handler C ''Failed to update utilities: '')"

definition updateLabor_try :: "('a, 'w) collaborators \<Rightarrow> 'a list \<Rightarrow> ('a, 'w, unit) action" where
  "updateLabor_try C labor =
     update_list_try C (fdv_validateLaborItem C) (fe_updateLabor C)
       ''Labor validation failed: '' labor"

definition updateLabor :: "('a, 'w) collaborators \<Rightarrow> 'a list \<Rightarrow> ('a, 'w, unit) action" where
  "updateLabor C labor =
     try_catch (updateLabor_try C labor)
       (error_handler C ''Failed to update labor: '')"

definition updateFixedCosts_try :: "('a, 'w) collaborators \<Rightarrow> 'a list \<Rightarrow> ('a, 'w, unit) action" where
  "updateFixedCosts_try C fixedCosts =
     update_list_try C (fdv_validateFixedCost C) (fe_updateFixedCosts C)
       ''Fixed cost validation failed: '' fixedCosts"

definition updateFixedCosts :: "('a, 'w) collaborators \<Rightarrow> 'a list \<Rightarrow> ('a, 'w, unit) action" where
  "updateFixedCosts C fixedCosts =
     try_catch (updateFixedCosts_try C fixedCosts)
       (error_handler C ''Failed to update fixed costs: '')"

subsection \<open>Import, export, reset\<close>

definition clear_validationCache :: "('a, 'w, unit) action" where
  "clear_validationCache = (\<lambda>m. (Inr (), m\<lparr>validationCache := Map.empty\<rparr>))"

text \<open>\<open>result.error || 'Import failed'\<close>: an absent or empty message gives the fallback.\<close>

definition error_or_fallback :: "import_result \<Rightarrow> string" where
  "error_or_fallback result =
     (case import_error result of
        None \<Rightarrow> ''Import failed''
      | Some e \<Rightarrow> if e = [] then ''Import failed'' else e)"

definition importData_try :: "('a, 'w) collaborators \<Rightarrow> string \<Rightarrow> ('a, 'w, import_result) action" where
  "importData_try C jsonString =
     and_then (updateState C (LOADING_UPDATE True)) (\<lambda>_.
     and_then (call_world (fe_importJSON C jsonString)) (\<lambda>result.
     and_then
       (if success result then
          and_then (call_world (fe_getData C)) (\<lambda>d.
          and_then (call_world (fe_getScenarios C)) (\<lambda>sc.
          and_then (updateState C (DATA_UPDATE d sc)) (\<lambda>_.
          and_then (computeAndValidate C) (\<lambda>_.
          clear_validationCache))))
        else
          updateState C (ERROR_UPDATE (Some (error_or_fallback result))))
       (\<lambda>_. returns result)))"

definition importData :: "('a, 'w) collaborators \<Rightarrow> string \<Rightarrow> ('a, 'w, import_result) action" where
  "importData C jsonString =
     try_catch (importData_try C jsonString)
       (\<lambda>e. and_then (error_handler C ''Import failed: '' e) (\<lambda>_.
             and_then (call_pure (error_message e)) (\<lambda>msg.
             returns \<lparr>success = False, import_error = Some msg\<rparr>)))"

definition exportData :: "('a, 'w) collaborators \<Rightarrow> ('a, 'w, string) action" where
  "exportData C =
     try_catch (call_world (fe_exportJSON C))
       (\<lambda>e. and_then (console_error ''Export failed:'') (\<lambda>_. throw e))"

definition reset_try :: "('a, 'w) collaborators \<Rightarrow> ('a, 'w, unit) action" where
  "reset_try C =
     and_then (updateState C (LOADING_UPDATE True)) (\<lambda>_.
     and_then (call_world (localStorage_removeItem C ''finance_data'')) (\<lambda>_.
     and_then (call_world (localStorage_removeItem C ''finance_scenarios'')) (\<lambda>_.
     and_then (call_world (fe_new C)) (\<lambda>_.
     and_then (call_world (fe_init C)) (\<lambda>_.
     and_then (call_world (fe_getData C)) (\<lambda>d.
     and_then (call_world (fe_getScenarios C)) (\<lambda>sc.
     and_then (updateState C (DATA_UPDATE d sc)) (\<lambda>_.
     and_then (computeAndValidate C) (\<lambda>_.
     clear_validationCache)))))))))"

definition reset :: "('a, 'w) collaborators \<Rightarrow> ('a, 'w, unit) action" where
  "reset C =
     try_catch (reset_try C)
       (error_handler C ''Reset failed: '')"

subsection \<open>Scenario management, error handling, getters\<close>

text \<open>
  \<open>if (this.state.scenarios[scenarioId])\<close>. Reading a property of \<open>undefined\<close> throws
  a \<open>TypeError\<close>, and \<open>setCurrentScenario\<close> has no \<open>try\<close>. On a plain object the
  read gives the value of an own property, or else the property of that name inherited
  from \<open>Object.prototype\<close>, or else \<open>undefined\<close>; the inherited ones are functions and
  objects, which count as true.
\<close>

definition object_prototype_properties :: "string list" where
  "object_prototype_properties =
     [''constructor'', ''hasOwnProperty'', ''isPrototypeOf'', ''propertyIsEnumerable'',
      ''toLocaleString'', ''toString'', ''valueOf'', ''__proto__'', ''__defineGetter__'',
      ''__defineSetter__'', ''__lookupGetter__'', ''__lookupSetter__'']"

definition truthy_property :: "('a, 'w) collaborators \<Rightarrow> (string \<rightharpoonup> 'a) \<Rightarrow> string \<Rightarrow> bool" where
  "truthy_property C obj name =
     (case obj name of
        Some v \<Rightarrow> js_truthy C v
      | None \<Rightarrow> name \<in> set object_prototype_properties)"

definition setCurrentScenario :: "('a, 'w) collaborators \<Rightarrow> string \<Rightarrow> ('a, 'w, unit) action" where
  "setCurrentScenario C scenarioId = (\<lambda>m.
     case scenarios (state m) of
       None \<Rightarrow> (Inl null_TypeError, m)
     | Some obj \<Rightarrow>
         if truthy_property C obj scenarioId then
           updateState C (SCENARIO_UPDATE scenarioId) m
         else
           updateState C (ERROR_UPDATE (Some (''Scenario '' @ scenarioId @ '' not found''))) m)"

definition clearError :: "('a, 'w) collaborators \<Rightarrow> ('a, 'w, unit) action" where
  "clearError C = updateState C (ERROR_UPDATE None)"

text \<open>\<open>getState\<close> returns \<open>{ ...this.state }\<close>, a new object with the fields of the state.
  Here it is the value of the state; the section on the store below looks at the object
  returned and at what it shares with the state.\<close>

definition getState :: "('a, 'w, 'a app_state) action" where
  "getState = (\<lambda>m. (Inr (state m), m))"

definition getData :: "('a, 'w, 'a option) action" where
  "getData = (\<lambda>m. (Inr (data (state m)), m))"

definition getComputationResult :: "('a, 'w, 'a option) action" where
  "getComputationResult = (\<lambda>m. (Inr (computationResult (state m)), m))"

definition getValidationResults :: "('a, 'w, validation_result list) action" where
  "getValidationResults = (\<lambda>m. (Inr (validationResults (state m)), m))"

definition getError :: "('a, 'w, string option) action" where
  "getError = (\<lambda>m. (Inr (error (state m)), m))"

definition getIsLoading :: "('a, 'w, bool) action" where
  "getIsLoading = (\<lambda>m. (Inr (isLoading (state m)), m))"

definition getCurrentScenario :: "('a, 'w, string) action" where
  "getCurrentScenario = (\<lambda>m. (Inr (currentScenario (state m)), m))"

definition getScenarios :: "('a, 'w, (string \<rightharpoonup> 'a) option) action" where
  "getScenarios = (\<lambda>m. (Inr (scenarios (state m)), m))"

subsection \<open>Construction\<close>




subsection \<open>getState and getData on a store of objects\<close>

text \<open>
  The definitions above take the state as a value, which cannot tell a copy from the object
  it was copied from. What \<open>getState\<close> shares with the manager is a matter of references,
  so here the state object lives in a store: an object is a map from property names to
  values, a value is a primitive or a reference to an object, and a new object gets the
  next free address. \<open>getState\<close> is \<open>{ ...this.state }\<close>: a new object with the own
  properties of the state object, each with the same value. \<open>getData\<close> is
  \<open>this.state.data\<close>. \<open>assign a f v\<close> is the caller's \<open>x.f = v\<close> on the object at
  \<open>a\<close>.
\<close>

type_synonym addr = nat

datatype js_value = JNull | JBool bool | JStr string | JRef addr

type_synonym js_object = "string \<rightharpoonup> js_value"

record store =
  cells :: "addr \<rightharpoonup> js_object"
  next_addr :: addr

definition well_formed :: "store \<Rightarrow> bool" where
  "well_formed h = (\<forall>a\<in>dom (cells h). a < next_addr h)"

definition own_properties :: "store \<Rightarrow> addr \<Rightarrow> js_object" where
  "own_properties h a = (case cells h a of Some obj \<Rightarrow> obj | None \<Rightarrow> Map.empty)"

definition new_object :: "js_object \<Rightarrow> store \<Rightarrow> addr \<times> store" where
  "new_object obj h =
     (next_addr h, h\<lparr>cells := (cells h)(next_addr h \<mapsto> obj), next_addr := Suc (next_addr h)\<rparr>)"

definition getState_store :: "addr \<Rightarrow> store \<Rightarrow> addr \<times> store" where
  "getState_store this_state h = new_object (own_properties h this_state) h"

definition getData_store :: "addr \<Rightarrow> store \<Rightarrow> js_value option" where
  "getData_store this_state h = own_properties h this_state ''data''"

definition assign :: "addr \<Rightarrow> string \<Rightarrow> js_value \<Rightarrow> store \<Rightarrow> store" where
  "assign a f v h =
     (case cells h a of
        Some obj \<Rightarrow> h\<lparr>cells := (cells h)(a \<mapsto> obj(f \<mapsto> v))\<rparr>
      | None \<Rightarrow> h)"

subsection \<open>Sequences of public calls\<close>

text \<open>The public methods, as operations a caller applies one after another; what a call
  returns or throws goes to the caller, the manager stays.\<close>

datatype 'a operation =
    UpdateState "'a state_update"
  | Subscribe nat
  | Unsubscribe nat
  | UpdateMenu string 'a
  | UpdateSalesModel 'a
  | UpdateUtilities "'a list"
  | UpdateLabor "'a list"
  | UpdateFixedCosts "'a list"
  | ImportData string
  | ExportData
  | GetState
  | GetData
  | GetComputationResult
  | GetValidationResults
  | GetError
  | IsLoading
  | SetCurrentScenario string
  | GetCurrentScenario
  | GetScenarios
  | ClearError
  | Reset

fun perform :: "('a, 'w) collaborators \<Rightarrow> 'a operation \<Rightarrow> ('a, 'w) manager \<Rightarrow> ('a, 'w) manager" where
  "perform C (UpdateState update) m = snd (updateState C update m)"
| "perform C (Subscribe callback) m = snd (subscribe callback m)"
| "perform C (Unsubscribe callback) m = snd (unsubscribe callback m)"
| "perform C (UpdateMenu menuId updates) m = snd (updateMenu C menuId updates m)"
| "perform C (UpdateSalesModel updates) m = snd (updateSalesModel C updates m)"
| "perform C (UpdateUtilities utilities) m = snd (updateUtilities C utilities m)"
| "perform C (UpdateLabor labor) m = snd (updateLabor C labor m)"
| "perform C (UpdateFixedCosts fixedCosts) m = snd (updateFixedCosts C fixedCosts m)"
| "perform C (ImportData jsonString) m = snd (importData C jsonString m)"
| "perform C ExportData m = snd (exportData C m)"
| "perform C GetState m = snd (getState m)"
| "perform C GetData m = snd (getData m)"
| "perform C GetComputationResult m = snd (getComputationResult m)"
| "perform C GetValidationResults m = snd (getValidationResults m)"
| "perform C GetError m = snd (getError m)"
| "perform C IsLoading m = snd (getIsLoading m)"
| "perform C (SetCurrentScenario scenarioId) m = snd (setCurrentScenario C scenarioId m)"
| "perform C GetCurrentScenario m = snd (getCurrentScenario m)"
| "perform C GetScenarios m = snd (getScenarios m)"
| "perform C ClearError m = snd (clearError C m)"
| "perform C Reset m = snd (reset C m)"

fun run :: "('a, 'w) collaborators \<Rightarrow> 'a operation list \<Rightarrow> ('a, 'w) manager \<Rightarrow> ('a, 'w) manager" where
  "run C [] m = m"
| "run C (op # ops) m = run C ops (perform C op m)"

section \<open>Definitions for stating the properties\<close>

subsection \<open>One transition\<close>

text \<open>\<open>quiet C\<close>: no callback subscribes or unsubscribes while it runs.\<close>

definition quiet :: "('a, 'w) collaborators \<Rightarrow> bool" where
  "quiet C = (\<forall>cb s. callback_calls C cb s = [])"


text \<open>What the subscribers are sent for one state, and what the console shows, when the
  list of subscribers does not change on the way.\<close>

fun notify_events :: "('a, 'w) collaborators \<Rightarrow> nat list \<Rightarrow> 'a app_state \<Rightarrow> 'a event list" where
  "notify_events C [] s = []"
| "notify_events C (cb # cbs) s =
     Notify cb s #
     (case callback_throws C cb s of
        Some e \<Rightarrow> [ConsoleError ''Error in subscriber callback:'']
      | None \<Rightarrow> []) @ notify_events C cbs s"

text \<open>The list of subscribers after the calls a callback makes.\<close>

fun apply_calls :: "subscription_call list \<Rightarrow> nat list \<Rightarrow> nat list" where
  "apply_calls [] cbs = cbs"
| "apply_calls (CallSubscribe c # calls) cbs = apply_calls calls (cbs @ [c])"
| "apply_calls (CallUnsubscribe c # calls) cbs = apply_calls calls (remove1 c cbs)"

text \<open>The manager after \<open>notifySubscribers\<close>, and the effects that pass added.\<close>

definition notified :: "('a, 'w) collaborators \<Rightarrow> ('a, 'w) manager \<Rightarrow> ('a, 'w) manager" where
  "notified C m = snd (notifySubscribers C m)"

definition notify_log :: "('a, 'w) collaborators \<Rightarrow> ('a, 'w) manager \<Rightarrow> 'a event list" where
  "notify_log C m = drop (length (events m)) (events (notified C m))"

text \<open>The state the \<open>switch\<close> gives for an update that has a payload.\<close>

definition applied :: "'a state_update \<Rightarrow> 'a app_state \<Rightarrow> 'a app_state" where
  "applied update s = (case apply_update update s of Inr s' \<Rightarrow> s' | Inl e \<Rightarrow> s)"

text \<open>The manager after one call of \<open>updateState\<close>: for an update with a payload, the
  state is assigned and stamped, the subscribers are notified, and a \<open>DATA_UPDATE\<close> is
  saved; for \<open>NULL_PAYLOAD\<close> the failure is logged and the same is done for the
  \<open>ERROR_UPDATE\<close> of the handler. \<open>update_events\<close> are the effects the call added.\<close>

definition stamped :: "('a, 'w) collaborators \<Rightarrow> 'a state_update \<Rightarrow> ('a, 'w) manager \<Rightarrow> ('a, 'w) manager" where
  "stamped C update m =
     m\<lparr> events := events m @ [Transition update],
         state := (applied update (state m))\<lparr>lastUpdated := date_now C (clock_reads m)\<rparr>,
         clock_reads := Suc (clock_reads m) \<rparr>"

definition save_log :: "('a, 'w) collaborators \<Rightarrow> 'a state_update \<Rightarrow> 'w \<Rightarrow> 'a event list" where
  "save_log C update w =
     (if is_data_update update
      then (case fst (fe_save C w) of
              Inl e \<Rightarrow> [ConsoleError ''Auto-save failed:'']
            | Inr _ \<Rightarrow> [])
      else [])"

definition saved :: "('a, 'w) collaborators \<Rightarrow> 'a state_update \<Rightarrow> ('a, 'w) manager \<Rightarrow> ('a, 'w) manager" where
  "saved C update m =
     (if is_data_update update
      then m\<lparr> world := snd (fe_save C (world m)),
               events := events m @ save_log C update (world m) \<rparr>
      else m)"

definition after_valid_update :: "('a, 'w) collaborators \<Rightarrow> 'a state_update \<Rightarrow> ('a, 'w) manager \<Rightarrow> ('a, 'w) manager" where
  "after_valid_update C update m = saved C update (notified C (stamped C update m))"

definition after_update :: "('a, 'w) collaborators \<Rightarrow> 'a state_update \<Rightarrow> ('a, 'w) manager \<Rightarrow> ('a, 'w) manager" where
  "after_update C update m =
     (if update = NULL_PAYLOAD
      then after_valid_update C
             (ERROR_UPDATE (Some (''State update failed: '' @ ''Cannot read properties of null'')))
             (m\<lparr>events := events m @ [ConsoleError ''Error updating state:'']\<rparr>)
      else after_valid_update C update m)"

definition update_events :: "('a, 'w) collaborators \<Rightarrow> 'a state_update \<Rightarrow> ('a, 'w) manager \<Rightarrow> 'a event list" where
  "update_events C update m = drop (length (events m)) (events (after_update C update m))"

subsection \<open>The compute-and-validate sequence\<close>

text \<open>The managers after \<open>validateAllData\<close> and after \<open>computeAndValidate\<close>, and what
  \<open>computeAndValidate\<close> returns or throws: its handler throws when the computation threw
  \<open>null\<close> or \<open>undefined\<close>.\<close>

definition after_validateAllData :: "('a, 'w) collaborators \<Rightarrow> ('a, 'w) manager \<Rightarrow> ('a, 'w) manager" where
  "after_validateAllData C m =
     (case json_stringify C (data (state m)) of
        Inl e \<Rightarrow> m\<lparr>events := events m @ [ConsoleError ''Validation failed:'']\<rparr>
      | Inr k \<Rightarrow>
          (case validationCache m k of
             Some c \<Rightarrow> after_update C (VALIDATION_UPDATE [c]) m
           | None \<Rightarrow>
               (case fdv_validateAllData C (data (state m)) of
                  Inl e \<Rightarrow> m\<lparr>events := events m @ [ValidateAll (data (state m)),
                                                   ConsoleError ''Validation failed:'']\<rparr>
                | Inr v \<Rightarrow> after_update C (VALIDATION_UPDATE [v])
                    (m\<lparr>events := events m @ [ValidateAll (data (state m))],
                       validationCache := (validationCache m)(k \<mapsto> v)\<rparr>))))"

definition after_computeAndValidate :: "('a, 'w) collaborators \<Rightarrow> ('a, 'w) manager \<Rightarrow> ('a, 'w) manager" where
  "after_computeAndValidate C m =
     (case fe_compute C (world m) of
        (Inl (Exn msg), w) \<Rightarrow>
          after_update C (ERROR_UPDATE (Some (''Computation failed: '' @ msg))) (m\<lparr>world := w\<rparr>)
      | (Inl Nullish, w) \<Rightarrow> m\<lparr>world := w\<rparr>
      | (Inr r, w) \<Rightarrow>
          after_update C (LOADING_UPDATE False)
            (after_validateAllData C (after_update C (COMPUTATION_UPDATE r) (m\<lparr>world := w\<rparr>))))"

definition computeAndValidate_outcome :: "('a, 'w) collaborators \<Rightarrow> ('a, 'w) manager \<Rightarrow> exn + unit" where
  "computeAndValidate_outcome C m =
     (if fst (fe_compute C (world m)) = Inl Nullish then Inl null_TypeError else Inr ())"

subsection \<open>Reading the record of effects\<close>

fun transitions_of :: "'a event list \<Rightarrow> 'a state_update list" where
  "transitions_of [] = []"
| "transitions_of (Transition u # evs) = u # transitions_of evs"
| "transitions_of (ev # evs) = transitions_of evs"

fun notifications_of :: "'a event list \<Rightarrow> (nat \<times> 'a app_state) list" where
  "notifications_of [] = []"
| "notifications_of (Notify cb s # evs) = (cb, s) # notifications_of evs"
| "notifications_of (ev # evs) = notifications_of evs"

fun validator_calls :: "'a event list \<Rightarrow> 'a option list" where
  "validator_calls [] = []"
| "validator_calls (ValidateAll d # evs) = d # validator_calls evs"
| "validator_calls (ev # evs) = validator_calls evs"

text \<open>The effects an action adds when run from \<open>m\<close>.\<close>

definition emitted :: "('a, 'w, 'x) action \<Rightarrow> ('a, 'w) manager \<Rightarrow> 'a event list" where
  "emitted act m = drop (length (events m)) (events (snd (act m)))"

subsection \<open>Views, invariants and handlers\<close>








subsection \<open>A sample instance\<close>

text \<open>
  Concrete collaborators, used to run the methods on explicit inputs. Values are strings,
  and the empty string is the one that does not count as true;
  the engine's world is the dataset it holds; a fragment is valid when it is not empty;
  subscriber 13 throws whenever it is called, and no subscriber calls the manager.
\<close>

definition nonempty :: "string \<Rightarrow> exn + validation_result" where
  "nonempty x = Inr \<lparr>isValid = (x \<noteq> []),
     errors = (if x \<noteq> [] then [] else [''value is required'']), warnings = []\<rparr>"

definition sample_collaborators :: "(string, string) collaborators" where
  "sample_collaborators = \<lparr>
     fe_new = (\<lambda>w. (Inr (), ''default'')),
     fe_init = (\<lambda>w. (Inr (), w)),
     fe_getData = (\<lambda>w. (Inr (Some w), w)),
     fe_getScenarios = (\<lambda>w. (Inr (Some [''base'' \<mapsto> ''Base'']), w)),
     fe_updateMenu = (\<lambda>menuId updates w. (Inr (), updates)),
     fe_updateSalesModel = (\<lambda>updates w. (Inr (), updates)),
     fe_updateUtilities = (\<lambda>items w. (Inr (), concat items)),
     fe_updateLabor = (\<lambda>items w. (Inr (), concat items)),
     fe_updateFixedCosts = (\<lambda>items w. (Inr (), concat items)),
     fe_compute = (\<lambda>w. (Inr (Some (''kpi:'' @ w)), w)),
     fe_importJSON = (\<lambda>jsonString w.
        if jsonString = [] then (Inr \<lparr>success = False, import_error = None\<rparr>, w)
        else (Inr \<lparr>success = True, import_error = None\<rparr>, jsonString)),
     fe_exportJSON = (\<lambda>w. (Inr w, w)),
     fe_save = (\<lambda>w. (Inr (), w)),
     fdv_validateMenuItem = nonempty,
     fdv_validateSalesModel = nonempty,
     fdv_validateUtilityItem = nonempty,
     fdv_validateLaborItem = nonempty,
     fdv_validateFixedCost = nonempty,
     fdv_validateAllData = (\<lambda>d. Inr \<lparr>isValid = (d \<noteq> None), errors = [], warnings = []\<rparr>),
     json_stringify = (\<lambda>d. Inr (case d of None \<Rightarrow> ''null'' | Some x \<Rightarrow> x)),
     js_truthy = (\<lambda>v. v \<noteq> []),
     localStorage_removeItem = (\<lambda>key w. (Inr (), w)),
     date_now = (\<lambda>n. ''now''),
     callback_calls = (\<lambda>cb s. []),
     callback_throws = (\<lambda>cb s. if cb = 13 then Some (Exn ''subscriber failed'') else None) \<rparr>"

definition sample_manager :: "(string, string) manager" where
  "sample_manager = \<lparr> state = getInitialState ''now'', world = ''default'', subscribers = [7],
     validationCache = Map.empty, clock_reads = 0, events = [] \<rparr>"

text \<open>Variants of the sample collaborators: an engine whose \<open>init\<close> throws, one whose
  scenarios change with the imported dataset, a whole-dataset validator that throws, an
  engine whose \<open>updateMenu\<close> and \<open>exportJSON\<close> throw, an engine whose \<open>compute\<close>
  throws, an engine whose \<open>updateMenu\<close> throws \<open>null\<close>, and a subscriber 7 that calls
  the function its \<open>subscribe\<close> returned as soon as it is notified.\<close>

definition failing_init_collaborators :: "(string, string) collaborators" where
  "failing_init_collaborators =
     sample_collaborators\<lparr>fe_init := (\<lambda>w. (Inl (Exn ''storage unavailable''), w))\<rparr>"

definition swapping_collaborators :: "(string, string) collaborators" where
  "swapping_collaborators =
     sample_collaborators\<lparr>fe_getScenarios := (\<lambda>w.
       (Inr (Some (if w = ''default'' then [''base'' \<mapsto> ''Base'']
                   else [''imported'' \<mapsto> ''Imported''])), w))\<rparr>"

definition crashing_validator_collaborators :: "(string, string) collaborators" where
  "crashing_validator_collaborators =
     sample_collaborators\<lparr>fdv_validateAllData := (\<lambda>d. Inl (Exn ''validator crashed''))\<rparr>"

definition failing_engine_collaborators :: "(string, string) collaborators" where
  "failing_engine_collaborators =
     sample_collaborators\<lparr>fe_updateMenu := (\<lambda>menuId updates w. (Inl (Exn ''disk full''), w)),
                           fe_exportJSON := (\<lambda>w. (Inl (Exn ''cannot serialize''), w))\<rparr>"

definition failing_compute_collaborators :: "(string, string) collaborators" where
  "failing_compute_collaborators =
     sample_collaborators\<lparr>fe_compute := (\<lambda>w. (Inl (Exn ''division by zero''), w))\<rparr>"

definition null_throwing_collaborators :: "(string, string) collaborators" where
  "null_throwing_collaborators =
     sample_collaborators\<lparr>fe_updateMenu := (\<lambda>menuId updates w. (Inl Nullish, w))\<rparr>"

definition unsubscribing_collaborators :: "(string, string) collaborators" where
  "unsubscribing_collaborators =
     sample_collaborators\<lparr>callback_calls := (\<lambda>cb s. if cb = 7 then [CallUnsubscribe 7] else [])\<rparr>"

text \<open>Managers of the sample instance: one that is loading, one after initialization, one
  with the same callback subscribed twice, one with two subscribers.\<close>

definition loading_manager :: "(string, string) manager" where
  "loading_manager = snd (updateState sample_collaborators (LOADING_UPDATE True) sample_manager)"



definition two_subscribers :: "(string, string) manager" where
  "two_subscribers = snd (subscribe 9 sample_manager)"

text \<open>A manager whose cache holds an outcome under the key \<open>data2\<close>, the serialization
  of the dataset that importing \<open>data2\<close> gives in the sample instance.\<close>

definition stale_result :: validation_result where
  "stale_result = \<lparr>isValid = False, errors = [''stale''], warnings = []\<rparr>"

definition cached_manager :: "(string, string) manager" where
  "cached_manager = sample_manager\<lparr>validationCache := [''data2'' \<mapsto> stale_result]\<rparr>"

text \<open>A store with a state object at address 0 whose dataset is the object at 1.\<close>

definition sample_store :: store where
  "sample_store = \<lparr> cells =
       [0 \<mapsto> [''data'' \<mapsto> JRef 1, ''scenarios'' \<mapsto> JRef 2, ''currentScenario'' \<mapsto> JStr ''base'',
              ''computationResult'' \<mapsto> JNull, ''validationResults'' \<mapsto> JRef 3,
              ''isLoading'' \<mapsto> JBool False, ''error'' \<mapsto> JNull, ''lastUpdated'' \<mapsto> JStr ''now''],
        1 \<mapsto> [''menus'' \<mapsto> JStr ''pad thai''],
        2 \<mapsto> [''base'' \<mapsto> JStr ''Base''],
        3 \<mapsto> Map.empty],
     next_addr = 4 \<rparr>"

section \<open>Basic facts\<close>

subsection \<open>The function that subscribe returns\<close>

lemma indexOf_notin: "x \<notin> set xs \<Longrightarrow> indexOf xs x = - 1"
  by (induction xs) auto

lemma indexOf_in: "x \<in> set xs \<Longrightarrow> 0 \<le> indexOf xs x \<and> nat (indexOf xs x) < length xs"
  by (induction xs) (auto simp: Let_def indexOf_notin)

lemma splice1_indexOf:
  assumes "x \<in> set xs"
  shows "splice1 xs (nat (indexOf xs x)) = remove1 x xs"
  using assms
proof (induction xs)
  case Nil
  then show ?case by simp
next
  case (Cons y ys)
  show ?case
  proof (cases "y = x")
    case True
    then show ?thesis by (simp add: splice1_def)
  next
    case False
    with Cons.prems have mem: "x \<in> set ys" by simp
    from indexOf_in [OF mem] have "nat (indexOf ys x + 1) = Suc (nat (indexOf ys x))" by linarith
    moreover from indexOf_in [OF mem] have "indexOf ys x \<noteq> - 1" by linarith
    ultimately show ?thesis using False Cons.IH [OF mem]
      by (simp add: splice1_def Let_def)
  qed
qed

text \<open>The \<open>indexOf\<close> and \<open>splice\<close> of the returned function remove the first
  occurrence of the callback, if there is one.\<close>

lemma unsubscribe_eq:
  "unsubscribe cb m = (Inr (), m\<lparr>subscribers := remove1 cb (subscribers m)\<rparr>)"
proof (cases "cb \<in> set (subscribers m)")
  case True
  with indexOf_in [OF True] show ?thesis
    by (simp add: unsubscribe_def Let_def splice1_indexOf)
next
  case False
  then show ?thesis
    by (simp add: unsubscribe_def Let_def indexOf_notin remove1_idem)
qed

lemma for_each_perform_call:
  "for_each perform_call calls m =
     (Inr (), m\<lparr>subscribers := apply_calls calls (subscribers m)\<rparr>)"
proof (induction calls arbitrary: m)
  case Nil
  show ?case by (simp add: returns_def)
next
  case (Cons c calls)
  show ?case
    by (cases c) (simp_all add: and_then_def subscribe_def returns_def unsubscribe_eq Cons.IH)
qed

subsection \<open>Reading the record of effects\<close>

lemma transitions_of_append [simp]:
  "transitions_of (xs @ ys) = transitions_of xs @ transitions_of ys"
  by (induction xs rule: transitions_of.induct) simp_all

lemma notifications_of_append [simp]:
  "notifications_of (xs @ ys) = notifications_of xs @ notifications_of ys"
  by (induction xs rule: notifications_of.induct) simp_all

lemma validator_calls_append [simp]:
  "validator_calls (xs @ ys) = validator_calls xs @ validator_calls ys"
  by (induction xs rule: validator_calls.induct) simp_all

lemma transitions_of_notify_events [simp]: "transitions_of (notify_events C cbs s) = []"
  by (induction cbs) (simp_all split: option.splits)

lemma validator_calls_notify_events [simp]: "validator_calls (notify_events C cbs s) = []"
  by (induction cbs) (simp_all split: option.splits)

lemma notifications_of_notify_events [simp]:
  "notifications_of (notify_events C cbs s) = map (\<lambda>cb. (cb, s)) cbs"
  by (induction cbs) (simp_all split: option.splits)

lemma emittedI: "events (snd (act m)) = events m @ evs \<Longrightarrow> emitted act m = evs"
  by (simp add: emitted_def)

subsection \<open>Notifying the subscribers\<close>

text \<open>A callback's own \<open>try\<close> catches what it throws; its calls change the list of
  subscribers and nothing else.\<close>

lemma invoke_callback_eq:
  "invoke_callback C cb m =
     (Inr (), m\<lparr>subscribers := apply_calls (callback_calls C cb (state m)) (subscribers m),
                events := events m @ notify_events C [cb] (state m)\<rparr>)"
  by (simp add: invoke_callback_def try_catch_def and_then_def emit_def console_error_def
      throw_def returns_def for_each_perform_call split: option.splits)

text \<open>\<open>notifySubscribers\<close> returns normally; it changes the list of subscribers and adds
  notifications and console messages, nothing else.\<close>

lemma forEach_from_frame:
  "\<exists>cbs evs. forEach_from C i len m = (Inr (), m\<lparr>subscribers := cbs, events := events m @ evs\<rparr>)
     \<and> transitions_of evs = [] \<and> validator_calls evs = []"
proof (induction C i len m rule: forEach_from.induct)
  case (1 C i len m)
  show ?case
  proof (cases "i < len")
    case False
    then have "forEach_from C i len m = (Inr (), m\<lparr>subscribers := subscribers m, events := events m @ []\<rparr>)"
      by (subst forEach_from.simps) simp
    then show ?thesis by (metis transitions_of.simps(1) validator_calls.simps(1))
  next
    case running: True
    show ?thesis
    proof (cases "i < length (subscribers m)")
      case False
      with running have "forEach_from C i len m = forEach_from C (Suc i) len m"
        by (subst forEach_from.simps) simp
      with "1.IH"(2) [OF running False] show ?thesis by simp
    next
      case True
      define m1 where "m1 = m\<lparr>subscribers :=
          apply_calls (callback_calls C (subscribers m ! i) (state m)) (subscribers m),
          events := events m @ notify_events C [subscribers m ! i] (state m)\<rparr>"
      have step: "invoke_callback C (subscribers m ! i) m = (Inr (), m1)"
        unfolding m1_def by (rule invoke_callback_eq)
      have unfold: "forEach_from C i len m = forEach_from C (Suc i) len m1"
        using running True by (subst forEach_from.simps) (simp add: step)
      from "1.IH"(1) [OF running True step [symmetric] refl]
      obtain cbs evs where rest: "forEach_from C (Suc i) len m1 =
          (Inr (), m1\<lparr>subscribers := cbs, events := events m1 @ evs\<rparr>)"
        and quiet_log: "transitions_of evs = []" "validator_calls evs = []"
        by blast
      have "forEach_from C i len m =
          (Inr (), m\<lparr>subscribers := cbs,
             events := events m @ (notify_events C [subscribers m ! i] (state m) @ evs)\<rparr>)"
        by (simp add: unfold rest) (simp add: m1_def)
      moreover have "transitions_of (notify_events C [subscribers m ! i] (state m) @ evs) = []"
        "validator_calls (notify_events C [subscribers m ! i] (state m) @ evs) = []"
        using quiet_log by (simp_all del: notify_events.simps)
      ultimately show ?thesis by blast
    qed
  qed
qed

lemma notifySubscribers_frame:
  "\<exists>cbs evs. notifySubscribers C m = (Inr (), m\<lparr>subscribers := cbs, events := events m @ evs\<rparr>)
     \<and> transitions_of evs = [] \<and> validator_calls evs = []"
  unfolding notifySubscribers_def by (rule forEach_from_frame)

lemma notifySubscribers_eq: "notifySubscribers C m = (Inr (), notified C m)"
  using notifySubscribers_frame [of C m] by (auto simp: notified_def)

lemma notified_fields [simp]:
  "state (notified C m) = state m"
  "world (notified C m) = world m"
  "validationCache (notified C m) = validationCache m"
  "clock_reads (notified C m) = clock_reads m"
  "events (notified C m) = events m @ notify_log C m"
  using notifySubscribers_frame [of C m] by (auto simp: notified_def notify_log_def)

lemma notify_log_quiet [simp]:
  "transitions_of (notify_log C m) = []"
  "validator_calls (notify_log C m) = []"
  using notifySubscribers_frame [of C m] by (auto simp: notified_def notify_log_def)

text \<open>When no callback subscribes or unsubscribes, every subscriber is called once, in
  the order of the list, with the state as it is.\<close>

lemma forEach_from_quiet:
  "quiet C \<Longrightarrow> len = length (subscribers m) \<Longrightarrow>
     forEach_from C i len m =
       (Inr (), m\<lparr>events := events m @ notify_events C (drop i (subscribers m)) (state m)\<rparr>)"
proof (induction C i len m rule: forEach_from.induct)
  case (1 C i len m)
  show ?case
  proof (cases "i < len")
    case False
    with "1.prems" show ?thesis by (subst forEach_from.simps) simp
  next
    case True
    with "1.prems" have inside: "i < length (subscribers m)" by simp
    define m1 where "m1 = m\<lparr>events := events m @ notify_events C [subscribers m ! i] (state m)\<rparr>"
    have step: "invoke_callback C (subscribers m ! i) m = (Inr (), m1)"
      using "1.prems" unfolding m1_def by (simp add: invoke_callback_eq quiet_def)
    have "forEach_from C i len m = forEach_from C (Suc i) len m1"
      using True inside by (subst forEach_from.simps) (simp add: step)
    also have "\<dots> = (Inr (), m1\<lparr>events := events m1 @
        notify_events C (drop (Suc i) (subscribers m1)) (state m1)\<rparr>)"
      using "1.IH"(1) [OF True inside step [symmetric] refl] "1.prems" by (simp add: m1_def)
    also have "\<dots> = (Inr (), m\<lparr>events := events m @
        notify_events C (subscribers m ! i # drop (Suc i) (subscribers m)) (state m)\<rparr>)"
      by (simp add: m1_def)
    finally show ?thesis using inside by (simp add: Cons_nth_drop_Suc)
  qed
qed

lemma notified_quiet:
  "quiet C \<Longrightarrow> notified C m = m\<lparr>events := events m @ notify_events C (subscribers m) (state m)\<rparr>"
  by (simp add: notified_def notifySubscribers_def forEach_from_quiet)

lemma notify_log_eq:
  "quiet C \<Longrightarrow> notify_log C m = notify_events C (subscribers m) (state m)"
  by (simp add: notify_log_def notified_quiet)

lemma subscribers_notified: "quiet C \<Longrightarrow> subscribers (notified C m) = subscribers m"
  by (simp add: notified_quiet)

subsection \<open>One transition\<close>

lemma autoSave_eq:
  "autoSave C m =
     (Inr (), m\<lparr> world := snd (fe_save C (world m)),
                events := events m @ (case fst (fe_save C (world m)) of
                                        Inl e \<Rightarrow> [ConsoleError ''Auto-save failed:'']
                                      | Inr _ \<Rightarrow> []) \<rparr>)"
  by (simp add: autoSave_def try_catch_def call_world_def console_error_def emit_def
      split: prod.splits sum.splits)

lemma applied_simps [simp]:
  "applied (DATA_UPDATE d sc) s = s\<lparr>data := d, scenarios := sc\<rparr>"
  "applied (SCENARIO_UPDATE scenarioId) s = s\<lparr>currentScenario := scenarioId\<rparr>"
  "applied (COMPUTATION_UPDATE r) s = s\<lparr>computationResult := r\<rparr>"
  "applied (VALIDATION_UPDATE rs) s = s\<lparr>validationResults := rs\<rparr>"
  "applied (ERROR_UPDATE e) s = s\<lparr>error := e, isLoading := False\<rparr>"
  "applied (LOADING_UPDATE l) s = (if l then s\<lparr>isLoading := l, error := None\<rparr> else s\<lparr>isLoading := l\<rparr>)"
  by (simp_all add: applied_def)

lemma apply_update_applied:
  "update \<noteq> NULL_PAYLOAD \<Longrightarrow> apply_update update s = Inr (applied update s)"
  by (cases update) simp_all

lemma updateState_try_eq:
  "update \<noteq> NULL_PAYLOAD \<Longrightarrow> updateState_try C update m = (Inr (), after_valid_update C update m)"
  by (simp add: updateState_try_def and_then_def emit_def notifySubscribers_eq returns_def
      autoSave_eq after_valid_update_def stamped_def saved_def save_log_def apply_update_applied)

lemma updateState_try_null: "updateState_try C NULL_PAYLOAD m = (Inl null_TypeError, m)"
  by (simp add: updateState_try_def and_then_def)

text \<open>A call of \<open>updateState\<close> returns normally, and it reads as the \<open>try\<close> of the
  source.\<close>

lemma updateState_eq: "updateState C update m = (Inr (), after_update C update m)"
proof (cases "update = NULL_PAYLOAD")
  case True
  then show ?thesis
    by (subst updateState.simps, simp add: updateState_try_null console_error_def emit_def
        error_message_def null_TypeError_def)
      (subst updateState.simps, simp add: updateState_try_eq after_update_def)
next
  case False
  then show ?thesis
    by (subst updateState.simps) (simp add: updateState_try_eq after_update_def)
qed

lemma updateState_try_catch:
  "updateState C update m =
     try_catch (updateState_try C update)
       (\<lambda>e. and_then (console_error ''Error updating state:'')
          (\<lambda>_. error_handler C ''State update failed: '' e))
       m"
  by (subst updateState.simps)
    (simp add: try_catch_def and_then_def console_error_def emit_def error_handler_def
      call_pure_def split: prod.splits sum.splits)

lemma after_valid_update_fields:
  "state (after_valid_update C update m) =
     (applied update (state m))\<lparr>lastUpdated := date_now C (clock_reads m)\<rparr>"
  "validationCache (after_valid_update C update m) = validationCache m"
  "clock_reads (after_valid_update C update m) = Suc (clock_reads m)"
  "world (after_valid_update C update m) =
     (if is_data_update update then snd (fe_save C (world m)) else world m)"
  "events (after_valid_update C update m) =
     events m @ Transition update # notify_log C (stamped C update m) @ save_log C update (world m)"
  by (simp_all add: after_valid_update_def saved_def stamped_def save_log_def)


lemma after_update_fields [simp]:
  "update \<noteq> NULL_PAYLOAD \<Longrightarrow> state (after_update C update m) =
     (applied update (state m))\<lparr>lastUpdated := date_now C (clock_reads m)\<rparr>"
  "validationCache (after_update C update m) = validationCache m"
  "clock_reads (after_update C update m) = Suc (clock_reads m)"
  "world (after_update C update m) =
     (if is_data_update update then snd (fe_save C (world m)) else world m)"
  "events (after_update C update m) = events m @ update_events C update m"
  by (simp_all add: after_update_def after_valid_update_fields update_events_def)

lemma update_events_eq:
  "update \<noteq> NULL_PAYLOAD \<Longrightarrow> update_events C update m =
     Transition update # notify_log C (stamped C update m) @ save_log C update (world m)"
  by (simp add: update_events_def after_update_def after_valid_update_fields)

lemma transitions_of_save_log [simp]: "transitions_of (save_log C update w) = []"
  by (simp add: save_log_def split: sum.splits)

lemma validator_calls_save_log [simp]: "validator_calls (save_log C update w) = []"
  by (simp add: save_log_def split: sum.splits)

lemma notifications_of_save_log [simp]: "notifications_of (save_log C update w) = []"
  by (simp add: save_log_def split: sum.splits)

lemma transitions_of_update_events [simp]:
  "update \<noteq> NULL_PAYLOAD \<Longrightarrow> transitions_of (update_events C update m) = [update]"
  by (simp add: update_events_eq)


lemma validator_calls_update_events [simp]:
  "validator_calls (update_events C update m) = []"
  by (simp add: update_events_def after_update_def after_valid_update_fields)

lemma subscribers_after_update [simp]:
  "quiet C \<Longrightarrow> subscribers (after_update C update m) = subscribers m"
  by (simp add: after_update_def after_valid_update_def saved_def stamped_def notified_quiet)

lemma notifications_of_update_events [simp]:
  "quiet C \<Longrightarrow> update \<noteq> NULL_PAYLOAD \<Longrightarrow>
   notifications_of (update_events C update m) =
     map (\<lambda>cb. (cb, state (after_update C update m))) (subscribers m)"
  by (simp add: update_events_eq notify_log_eq) (simp add: stamped_def)


subsection \<open>The compute-and-validate sequence\<close>

text \<open>\<open>validateAllData\<close> cannot throw: its handler only logs. \<open>computeAndValidate\<close>
  throws only when its handler fails to read the message of what was thrown.\<close>

lemma validateAllData_eq: "validateAllData C m = (Inr (), after_validateAllData C m)"
  by (simp add: validateAllData_def after_validateAllData_def try_catch_def and_then_def
      call_pure_def updateState_eq emit_def console_error_def
      split: sum.splits option.splits)

lemma computeAndValidate_eq:
  "computeAndValidate C m = (computeAndValidate_outcome C m, after_computeAndValidate C m)"
  by (simp add: computeAndValidate_def computeAndValidate_try_def after_computeAndValidate_def
      computeAndValidate_outcome_def error_handler_def error_message_def call_pure_def
      try_catch_def and_then_def call_world_def updateState_eq validateAllData_eq
      split: sum.splits prod.splits exn.splits)

lemma computeAndValidate_returns:
  "fe_compute C (world m) = (Inr r, w) \<Longrightarrow> computeAndValidate_outcome C m = Inr ()"
  "fe_compute C (world m) = (Inl (Exn msg), w) \<Longrightarrow> computeAndValidate_outcome C m = Inr ()"
  by (simp_all add: computeAndValidate_outcome_def)

lemmas run_simps = try_catch_def and_then_def call_world_def call_pure_def returns_def
  updateState_eq computeAndValidate_eq computeAndValidate_outcome_def
  after_computeAndValidate_def after_validateAllData_def error_handler_def error_message_def
  emitted_def

subsection \<open>The sample instance\<close>

lemma quiet_sample [simp]:
  "quiet sample_collaborators"
  "quiet failing_init_collaborators"
  "quiet swapping_collaborators"
  "quiet crashing_validator_collaborators"
  "quiet failing_engine_collaborators"
  "quiet failing_compute_collaborators"
  "quiet null_throwing_collaborators"
  by (simp_all add: quiet_def sample_collaborators_def failing_init_collaborators_def
      swapping_collaborators_def crashing_validator_collaborators_def
      failing_engine_collaborators_def failing_compute_collaborators_def
      null_throwing_collaborators_def)


section \<open>The pipeline of a successful updateFixedCosts\<close>

lemma map_throwing_all:
  "\<forall>x\<in>set xs. \<exists>r. f x = Inr r \<and> P r \<Longrightarrow> \<exists>rs. map_throwing f xs = Inr rs \<and> (\<forall>r\<in>set rs. P r)"
  by (induction xs) auto

lemma update_list_valid:
  assumes valid: "\<forall>x\<in>set items. \<exists>r. validate x = Inr r \<and> isValid r"
    and "engine_update items (world m) = (Inr (), w1)"
    and "fe_getData C w1 = (Inr d, w2)"
  shows "update_list_try C validate engine_update l1 items m =
    computeAndValidate C
       (after_update C (DATA_UPDATE d (scenarios (state m)))
          ((after_update C (LOADING_UPDATE True) m)\<lparr>world := w2\<rparr>))"
proof -
  obtain rs where rs: "map_throwing validate items = Inr rs" "\<forall>r\<in>set rs. isValid r"
    using map_throwing_all [OF valid] by blast
  then have "\<not> list_ex (\<lambda>result. \<not> isValid result) rs"
    by (simp add: list_ex_iff)
  then show ?thesis using rs(1) assms(2,3)
    by (simp add: update_list_try_def and_then_def call_world_def call_pure_def
        updateState_eq)
qed

text \<open>
  C1, as stated, fails: a payload whose elements all pass \<open>validateFixedCost\<close> does not
  make the rest of the pipeline succeed. In the sample instance \<open>rent\<close> is a valid fixed
  cost. With a whole-dataset validator that throws, \<open>updateFixedCosts\<close> makes four
  transitions, none of them a \<open>VALIDATION_UPDATE\<close>, and the subscriber is called four
  times. With an engine whose \<open>compute\<close> throws, it makes three transitions, the last an
  \<open>ERROR_UPDATE\<close>, and the subscriber is called three times. And with the subscribers 7
  and 9, where 7 calls the function its \<open>subscribe\<close> returned as soon as it is notified,
  the five transitions are made, but subscriber 9 is not called for the first one: the
  removal moves it to the index that the \<open>forEach\<close> has just visited.
\<close>

theorem updateFixedCosts_pipeline_counterexample:
  "fdv_validateFixedCost crashing_validator_collaborators ''rent'' =
     Inr \<lparr>isValid = True, errors = [], warnings = []\<rparr>
   \<and> transitions_of (emitted (updateFixedCosts crashing_validator_collaborators [''rent'']) sample_manager) =
     [LOADING_UPDATE True, DATA_UPDATE (Some ''rent'') (Some Map.empty),
      COMPUTATION_UPDATE (Some ''kpi:rent''), LOADING_UPDATE False]
   \<and> map fst (notifications_of
        (emitted (updateFixedCosts crashing_validator_collaborators [''rent'']) sample_manager)) =
     [7, 7, 7, 7]
   \<and> fdv_validateFixedCost failing_compute_collaborators ''rent'' =
     Inr \<lparr>isValid = True, errors = [], warnings = []\<rparr>
   \<and> transitions_of (emitted (updateFixedCosts failing_compute_collaborators [''rent'']) sample_manager) =
     [LOADING_UPDATE True, DATA_UPDATE (Some ''rent'') (Some Map.empty),
      ERROR_UPDATE (Some ''Computation failed: division by zero'')]
   \<and> map fst (notifications_of
        (emitted (updateFixedCosts failing_compute_collaborators [''rent'']) sample_manager)) =
     [7, 7, 7]
   \<and> fdv_validateFixedCost unsubscribing_collaborators ''rent'' =
     Inr \<lparr>isValid = True, errors = [], warnings = []\<rparr>
   \<and> subscribers two_subscribers = [7, 9]
   \<and> transitions_of (emitted (updateFixedCosts unsubscribing_collaborators [''rent'']) two_subscribers) =
     [LOADING_UPDATE True, DATA_UPDATE (Some ''rent'') (Some Map.empty),
      COMPUTATION_UPDATE (Some ''kpi:rent''),
      VALIDATION_UPDATE [\<lparr>isValid = True, errors = [], warnings = []\<rparr>], LOADING_UPDATE False]
   \<and> map fst (notifications_of
        (emitted (updateFixedCosts unsubscribing_collaborators [''rent'']) two_subscribers)) =
     [7, 9, 9, 9, 9]"
proof -
  have valid: "fdv_validateFixedCost crashing_validator_collaborators ''rent'' =
      Inr \<lparr>isValid = True, errors = [], warnings = []\<rparr>"
    "fdv_validateFixedCost failing_compute_collaborators ''rent'' =
      Inr \<lparr>isValid = True, errors = [], warnings = []\<rparr>"
    "fdv_validateFixedCost unsubscribing_collaborators ''rent'' =
      Inr \<lparr>isValid = True, errors = [], warnings = []\<rparr>"
    by (simp_all add: crashing_validator_collaborators_def failing_compute_collaborators_def
        unsubscribing_collaborators_def sample_collaborators_def nonempty_def)
  have crashing: "transitions_of
      (emitted (updateFixedCosts crashing_validator_collaborators [''rent'']) sample_manager) =
      [LOADING_UPDATE True, DATA_UPDATE (Some ''rent'') (Some Map.empty),
       COMPUTATION_UPDATE (Some ''kpi:rent''), LOADING_UPDATE False]"
    by (simp add: updateFixedCosts_def updateFixedCosts_try_def update_list_try_def run_simps
        crashing_validator_collaborators_def sample_collaborators_def nonempty_def
        sample_manager_def getInitialState_def)
  have crashing_calls: "map fst (notifications_of
      (emitted (updateFixedCosts crashing_validator_collaborators [''rent'']) sample_manager)) =
      [7, 7, 7, 7]"
    by code_simp
  have failing: "transitions_of
      (emitted (updateFixedCosts failing_compute_collaborators [''rent'']) sample_manager) =
      [LOADING_UPDATE True, DATA_UPDATE (Some ''rent'') (Some Map.empty),
       ERROR_UPDATE (Some ''Computation failed: division by zero'')]"
    by (simp add: updateFixedCosts_def updateFixedCosts_try_def update_list_try_def run_simps
        failing_compute_collaborators_def sample_collaborators_def nonempty_def
        sample_manager_def getInitialState_def)
  have failing_calls: "map fst (notifications_of
      (emitted (updateFixedCosts failing_compute_collaborators [''rent'']) sample_manager)) =
      [7, 7, 7]"
    by code_simp
  have two: "subscribers two_subscribers = [7, 9]"
    by (simp add: two_subscribers_def subscribe_def sample_manager_def)
  have leaving: "transitions_of
      (emitted (updateFixedCosts unsubscribing_collaborators [''rent'']) two_subscribers) =
      [LOADING_UPDATE True, DATA_UPDATE (Some ''rent'') (Some Map.empty),
       COMPUTATION_UPDATE (Some ''kpi:rent''),
       VALIDATION_UPDATE [\<lparr>isValid = True, errors = [], warnings = []\<rparr>], LOADING_UPDATE False]"
    by (simp add: updateFixedCosts_def updateFixedCosts_try_def update_list_try_def run_simps
        unsubscribing_collaborators_def sample_collaborators_def nonempty_def
        two_subscribers_def subscribe_def sample_manager_def getInitialState_def)
  have leaving_calls: "map fst (notifications_of
      (emitted (updateFixedCosts unsubscribing_collaborators [''rent'']) two_subscribers)) =
      [7, 9, 9, 9, 9]"
    by code_simp
  show ?thesis
    using valid crashing crashing_calls failing failing_calls two leaving leaving_calls
    by (intro conjI)
qed

text \<open>
  C1, amended. Let every element of the payload pass \<open>validateFixedCost\<close>, and let the
  pipeline succeed: the engine's \<open>updateFixedCosts\<close>, \<open>getData\<close> (giving \<open>d\<close>) and
  \<open>compute\<close> (giving \<open>r\<close>) return, the dataset serializes to \<open>k\<close>, and the validation
  outcome \<open>v\<close> is the one cached under \<open>k\<close> or, with nothing cached, the one
  \<open>validateAllData\<close> returns. Then \<open>updateFixedCosts\<close> returns normally and makes exactly
  five transitions, in this order: \<open>LOADING_UPDATE true\<close>, \<open>DATA_UPDATE\<close> with \<open>d\<close> and
  the scenarios as they were, \<open>COMPUTATION_UPDATE r\<close>, \<open>VALIDATION_UPDATE [v]\<close>,
  \<open>LOADING_UPDATE false\<close>; the state at the end has the new dataset, computation result
  and validation outcome, no error, and is not loading. When, moreover, no callback
  subscribes or unsubscribes while it runs, the subscribers are called with exactly five
  states, every subscriber with one before any with the next: the first is loading with
  no error, the second has the new dataset, the third the new computation result, the
  fourth the validation outcome, and the fifth is no longer loading.
\<close>

theorem updateFixedCosts_pipeline_order:
  assumes valid: "\<forall>cost\<in>set fixedCosts. \<exists>r. fdv_validateFixedCost C cost = Inr r \<and> isValid r"
    and engine: "fe_updateFixedCosts C fixedCosts (world m) = (Inr (), w1)"
      "fe_getData C w1 = (Inr d, w2)"
      "fe_compute C (snd (fe_save C w2)) = (Inr r, w3)"
    and validation: "json_stringify C d = Inr k"
      "validationCache m k = Some v \<or>
       validationCache m k = None \<and> fdv_validateAllData C d = Inr v"
  shows "fst (updateFixedCosts C fixedCosts m) = Inr ()
    \<and> transitions_of (emitted (updateFixedCosts C fixedCosts) m) =
        [LOADING_UPDATE True, DATA_UPDATE d (scenarios (state m)), COMPUTATION_UPDATE r,
         VALIDATION_UPDATE [v], LOADING_UPDATE False]
    \<and> state (snd (updateFixedCosts C fixedCosts m)) =
        (state m)\<lparr>isLoading := False, error := None, data := d, computationResult := r,
           validationResults := [v], lastUpdated := date_now C (clock_reads m + 4)\<rparr>
    \<and> (quiet C \<longrightarrow>
        notifications_of (emitted (updateFixedCosts C fixedCosts) m) =
          concat (map (\<lambda>s. map (\<lambda>cb. (cb, s)) (subscribers m))
            [(state m)\<lparr>isLoading := True, error := None,
                lastUpdated := date_now C (clock_reads m)\<rparr>,
             (state m)\<lparr>isLoading := True, error := None, data := d,
                lastUpdated := date_now C (clock_reads m + 1)\<rparr>,
             (state m)\<lparr>isLoading := True, error := None, data := d, computationResult := r,
                lastUpdated := date_now C (clock_reads m + 2)\<rparr>,
             (state m)\<lparr>isLoading := True, error := None, data := d, computationResult := r,
                validationResults := [v], lastUpdated := date_now C (clock_reads m + 3)\<rparr>,
             (state m)\<lparr>isLoading := False, error := None, data := d, computationResult := r,
                validationResults := [v], lastUpdated := date_now C (clock_reads m + 4)\<rparr>]))"
proof -
  define m2 where "m2 = after_update C (DATA_UPDATE d (scenarios (state m)))
      ((after_update C (LOADING_UPDATE True) m)\<lparr>world := w2\<rparr>)"
  have run: "updateFixedCosts C fixedCosts m = (Inr (), after_computeAndValidate C m2)"
    using engine(3)
    by (simp add: updateFixedCosts_def updateFixedCosts_try_def try_catch_def m2_def
        update_list_valid [where validate = "fdv_validateFixedCost C"
          and engine_update = "fe_updateFixedCosts C", OF valid engine(1,2)]
        computeAndValidate_eq computeAndValidate_outcome_def)
  have returns: "fst (updateFixedCosts C fixedCosts m) = Inr ()"
    by (simp add: run)
  have transitions: "transitions_of (emitted (updateFixedCosts C fixedCosts) m) =
      [LOADING_UPDATE True, DATA_UPDATE d (scenarios (state m)), COMPUTATION_UPDATE r,
       VALIDATION_UPDATE [v], LOADING_UPDATE False]"
    using validation engine(3)
    by (auto simp: run m2_def emitted_def after_computeAndValidate_def after_validateAllData_def)
  have final: "state (snd (updateFixedCosts C fixedCosts m)) =
      (state m)\<lparr>isLoading := False, error := None, data := d, computationResult := r,
         validationResults := [v], lastUpdated := date_now C (clock_reads m + 4)\<rparr>"
    using validation engine(3)
    by (auto simp: run m2_def after_computeAndValidate_def after_validateAllData_def
        eval_nat_numeral)
  have calls: "notifications_of (emitted (updateFixedCosts C fixedCosts) m) =
      concat (map (\<lambda>s. map (\<lambda>cb. (cb, s)) (subscribers m))
        [(state m)\<lparr>isLoading := True, error := None,
            lastUpdated := date_now C (clock_reads m)\<rparr>,
         (state m)\<lparr>isLoading := True, error := None, data := d,
            lastUpdated := date_now C (clock_reads m + 1)\<rparr>,
         (state m)\<lparr>isLoading := True, error := None, data := d, computationResult := r,
            lastUpdated := date_now C (clock_reads m + 2)\<rparr>,
         (state m)\<lparr>isLoading := True, error := None, data := d, computationResult := r,
            validationResults := [v], lastUpdated := date_now C (clock_reads m + 3)\<rparr>,
         (state m)\<lparr>isLoading := False, error := None, data := d, computationResult := r,
            validationResults := [v], lastUpdated := date_now C (clock_reads m + 4)\<rparr>])"
    if "quiet C"
    using validation engine(3) that
    by (auto simp: run m2_def emitted_def after_computeAndValidate_def after_validateAllData_def
        eval_nat_numeral)
  show ?thesis
    using returns transitions final calls by blast
qed

theorem updateFixedCosts_pipeline_order_witness:
  "fdv_validateFixedCost sample_collaborators ''rent'' =
     Inr \<lparr>isValid = True, errors = [], warnings = []\<rparr>
   \<and> fdv_validateFixedCost sample_collaborators ''loan'' =
     Inr \<lparr>isValid = True, errors = [], warnings = []\<rparr>
   \<and> transitions_of (emitted (updateFixedCosts sample_collaborators [''rent'', ''loan'']) sample_manager) =
     [LOADING_UPDATE True, DATA_UPDATE (Some ''rentloan'') (Some Map.empty),
      COMPUTATION_UPDATE (Some ''kpi:rentloan''),
      VALIDATION_UPDATE [\<lparr>isValid = True, errors = [], warnings = []\<rparr>], LOADING_UPDATE False]
   \<and> map fst (notifications_of
        (emitted (updateFixedCosts sample_collaborators [''rent'', ''loan'']) sample_manager)) =
     [7, 7, 7, 7, 7]"
proof -
  note pipeline = updateFixedCosts_pipeline_order [where C = sample_collaborators
      and fixedCosts = "[''rent'', ''loan'']" and m = sample_manager
      and ?w1.0 = "''rentloan''" and d = "Some ''rentloan''" and ?w2.0 = "''rentloan''"
      and r = "Some ''kpi:rentloan''" and ?w3.0 = "''rentloan''" and k = "''rentloan''"
      and v = "\<lparr>isValid = True, errors = [], warnings = []\<rparr>"]
  have quiet: "quiet sample_collaborators"
    by (simp add: quiet_def sample_collaborators_def)
  show ?thesis
    using pipeline quiet
    by (simp add: sample_collaborators_def nonempty_def sample_manager_def getInitialState_def)
qed

section \<open>The validation gate of updateMenu\<close>




section \<open>The scenario invariant\<close>





































section \<open>Where exceptions stop\<close>










section \<open>The validation cache\<close>

text \<open>
  C5, as stated, fails: an outcome is cached only when the validator returns one. With a
  whole-dataset validator that throws, two consecutive runs of \<open>computeAndValidate\<close> on
  the same dataset, with nothing clearing the cache in between, call the validator once
  each, twice in all, and neither run emits a \<open>VALIDATION_UPDATE\<close>.
\<close>

theorem validation_cache_counterexample:
  "json_stringify crashing_validator_collaborators
      (data (state (snd (computeAndValidate crashing_validator_collaborators sample_manager)))) =
     json_stringify crashing_validator_collaborators (data (state sample_manager))
   \<and> validationCache (snd (computeAndValidate crashing_validator_collaborators sample_manager)) =
       Map.empty
   \<and> validator_calls (emitted (computeAndValidate crashing_validator_collaborators) sample_manager) =
       [None]
   \<and> validator_calls (emitted (computeAndValidate crashing_validator_collaborators)
        (snd (computeAndValidate crashing_validator_collaborators sample_manager))) = [None]
   \<and> transitions_of (emitted (computeAndValidate crashing_validator_collaborators) sample_manager) =
       [COMPUTATION_UPDATE (Some ''kpi:default''), LOADING_UPDATE False]
   \<and> transitions_of (emitted (computeAndValidate crashing_validator_collaborators)
        (snd (computeAndValidate crashing_validator_collaborators sample_manager))) =
       [COMPUTATION_UPDATE (Some ''kpi:default''), LOADING_UPDATE False]"
  by (simp add: run_simps crashing_validator_collaborators_def sample_collaborators_def
      sample_manager_def getInitialState_def)

text \<open>
  C5, amended. Take two runs of \<open>computeAndValidate\<close>, the first from \<open>m\<close>, the second
  from \<open>m'\<close>, where the dataset of \<open>m'\<close> serializes as the dataset of \<open>m\<close> does and the
  cache of \<open>m'\<close> is the cache the first run left (nothing cleared it). Let the first
  run emit a validation outcome \<open>v\<close>. Then \<open>FinancialDataValidator.validateAllData\<close>
  is called at most once in the two runs together, every \<open>VALIDATION_UPDATE\<close> of the
  second run carries \<open>[v]\<close>, and the second run emits it whenever its computation
  returns.
\<close>

theorem validation_cache_reuse:
  assumes first: "VALIDATION_UPDATE [v] \<in> set (transitions_of (emitted (computeAndValidate C) m))"
    and same: "json_stringify C (data (state m')) = json_stringify C (data (state m))"
    and kept: "validationCache m' = validationCache (snd (computeAndValidate C m))"
  shows "length (validator_calls (emitted (computeAndValidate C) m))
           + length (validator_calls (emitted (computeAndValidate C) m')) \<le> 1
       \<and> (\<forall>rs. VALIDATION_UPDATE rs \<in> set (transitions_of (emitted (computeAndValidate C) m'))
             \<longrightarrow> rs = [v])
       \<and> (\<forall>r w. fe_compute C (world m') = (Inr r, w) \<longrightarrow>
             transitions_of (emitted (computeAndValidate C) m') =
               [COMPUTATION_UPDATE r, VALIDATION_UPDATE [v], LOADING_UPDATE False])"
  using assms
  by (auto simp: emitted_def computeAndValidate_eq after_computeAndValidate_def
      after_validateAllData_def split: prod.splits sum.splits option.splits exn.splits)

theorem validation_cache_reuse_witness:
  "transitions_of (emitted (computeAndValidate sample_collaborators) sample_manager) =
     [COMPUTATION_UPDATE (Some ''kpi:default''),
      VALIDATION_UPDATE [\<lparr>isValid = False, errors = [], warnings = []\<rparr>], LOADING_UPDATE False]
   \<and> validator_calls (emitted (computeAndValidate sample_collaborators) sample_manager) = [None]
   \<and> validator_calls (emitted (computeAndValidate sample_collaborators)
        (snd (computeAndValidate sample_collaborators sample_manager))) = []
   \<and> transitions_of (emitted (computeAndValidate sample_collaborators)
        (snd (computeAndValidate sample_collaborators sample_manager))) =
     [COMPUTATION_UPDATE (Some ''kpi:default''),
      VALIDATION_UPDATE [\<lparr>isValid = False, errors = [], warnings = []\<rparr>], LOADING_UPDATE False]"
  using validation_cache_reuse [of "\<lparr>isValid = False, errors = [], warnings = []\<rparr>"
      sample_collaborators sample_manager "snd (computeAndValidate sample_collaborators sample_manager)"]
  by (simp add: emitted_def computeAndValidate_eq after_computeAndValidate_def
      after_validateAllData_def sample_collaborators_def sample_manager_def getInitialState_def)

section \<open>Clearing the cache on import\<close>

lemma importData_success:
  assumes "importData C jsonString m = (Inr result, m')" "success result"
  shows "validationCache m' = Map.empty"
  using assms
  by (auto simp: importData_def importData_try_def try_catch_def and_then_def call_world_def
      returns_def clear_validationCache_def updateState_eq computeAndValidate_eq
      error_handler_def error_message_def call_pure_def
      split: prod.splits sum.splits if_splits exn.splits)

lemma computeAndValidate_empty_cache:
  assumes "validationCache m2 = Map.empty" "fe_compute C (world m2) = (Inr r, w)"
    "json_stringify C (data (state m2)) = Inr k"
  shows "validator_calls (emitted (computeAndValidate C) m2) = [data (state m2)]"
  using assms
  by (auto simp: emitted_def computeAndValidate_eq after_computeAndValidate_def
      after_validateAllData_def split: prod.splits sum.splits option.splits exn.splits)

text \<open>
  C6. When \<open>importData\<close> returns a result with \<open>success = true\<close>, the validation cache
  is empty at its return. So a compute-and-validate cycle run on that cache calls
  \<open>FinancialDataValidator.validateAllData\<close> on the current dataset as soon as it reaches
  the validation (the computation returns and the dataset serializes), whatever key the
  dataset serializes to, a key cached before the import included.
\<close>

theorem importData_clears_validationCache:
  assumes "importData C jsonString m = (Inr result, m')" and "success result"
  shows "validationCache m' = Map.empty
     \<and> (\<forall>m2 r w k. validationCache m2 = validationCache m'
            \<and> fe_compute C (world m2) = (Inr r, w)
            \<and> json_stringify C (data (state m2)) = Inr k
          \<longrightarrow> validator_calls (emitted (computeAndValidate C) m2) = [data (state m2)])"
  using importData_success [OF assms] computeAndValidate_empty_cache [of _ C]
  by auto

theorem importData_clears_validationCache_witness:
  "validationCache cached_manager ''data2'' = Some stale_result
   \<and> fst (importData sample_collaborators ''data2'' cached_manager) =
       Inr \<lparr>success = True, import_error = None\<rparr>
   \<and> validationCache (snd (importData sample_collaborators ''data2'' cached_manager)) = Map.empty
   \<and> json_stringify sample_collaborators
        (data (state (snd (importData sample_collaborators ''data2'' cached_manager)))) = Inr ''data2''
   \<and> validator_calls (emitted (computeAndValidate sample_collaborators)
        (snd (importData sample_collaborators ''data2'' cached_manager))) = [Some ''data2'']"
proof -
  have run: "importData sample_collaborators ''data2'' cached_manager =
      (Inr \<lparr>success = True, import_error = None\<rparr>,
       snd (importData sample_collaborators ''data2'' cached_manager))"
    by (simp add: importData_def importData_try_def try_catch_def and_then_def call_world_def
        returns_def clear_validationCache_def updateState_eq computeAndValidate_eq
        computeAndValidate_outcome_def sample_collaborators_def cached_manager_def
        sample_manager_def)
  have fields: "world (snd (importData sample_collaborators ''data2'' cached_manager)) = ''data2''"
    "data (state (snd (importData sample_collaborators ''data2'' cached_manager))) = Some ''data2''"
    by (simp_all add: importData_def importData_try_def try_catch_def and_then_def call_world_def
        returns_def clear_validationCache_def updateState_eq computeAndValidate_eq
        computeAndValidate_outcome_def after_computeAndValidate_def after_validateAllData_def
        sample_collaborators_def cached_manager_def sample_manager_def)
  have cached: "validationCache cached_manager ''data2'' = Some stale_result"
    by (simp add: cached_manager_def)
  have outcome: "fst (importData sample_collaborators ''data2'' cached_manager) =
      Inr \<lparr>success = True, import_error = None\<rparr>"
    using run by (metis fst_conv)
  have key: "json_stringify sample_collaborators
      (data (state (snd (importData sample_collaborators ''data2'' cached_manager)))) = Inr ''data2''"
    by (simp add: fields) (simp add: sample_collaborators_def)
  have compute: "fe_compute sample_collaborators
      (world (snd (importData sample_collaborators ''data2'' cached_manager))) =
      (Inr (Some ''kpi:data2''), ''data2'')"
    by (simp add: fields) (simp add: sample_collaborators_def)
  from importData_clears_validationCache [OF run]
  have cleared: "validationCache (snd (importData sample_collaborators ''data2'' cached_manager)) = Map.empty"
    and next_cycle: "validator_calls (emitted (computeAndValidate sample_collaborators)
        (snd (importData sample_collaborators ''data2'' cached_manager))) =
        [data (state (snd (importData sample_collaborators ''data2'' cached_manager)))]"
    using compute key by auto
  show ?thesis
    using cached outcome cleared key next_cycle by (simp add: fields)
qed

section \<open>clearError\<close>

text \<open>
  C7, as stated, fails: \<open>clearError\<close> applies an \<open>ERROR_UPDATE\<close>, whose case of the
  \<open>switch\<close> also assigns \<open>isLoading = false\<close>. After the public
  \<open>updateState({type: 'LOADING_UPDATE', payload: {isLoading: true}})\<close> the state is
  loading; \<open>clearError()\<close> then leaves it not loading.
\<close>

theorem clearError_isLoading_counterexample:
  "isLoading (state loading_manager) = True
   \<and> isLoading (state (snd (clearError sample_collaborators loading_manager))) = False"
  by (simp add: loading_manager_def clearError_def updateState_eq)

text \<open>
  C7, amended. \<open>clearError()\<close> returns normally; it sets \<open>error\<close> to \<open>null\<close> and
  \<open>isLoading\<close> to \<open>false\<close>, refreshes \<open>lastUpdated\<close>, and leaves every other field of
  the state (\<open>data\<close>, \<open>scenarios\<close>, \<open>currentScenario\<close>, \<open>computationResult\<close>,
  \<open>validationResults\<close>) as it was, as well as the engine and the validation cache; it is
  one \<open>ERROR_UPDATE\<close> transition. The list of subscribers is as it was unless a callback
  subscribes or unsubscribes while it is notified.
\<close>

theorem clearError_effect:
  "fst (clearError C m) = Inr ()
   \<and> state (snd (clearError C m)) =
       (state m)\<lparr>error := None, isLoading := False, lastUpdated := date_now C (clock_reads m)\<rparr>
   \<and> world (snd (clearError C m)) = world m
   \<and> (quiet C \<longrightarrow> subscribers (snd (clearError C m)) = subscribers m)
   \<and> validationCache (snd (clearError C m)) = validationCache m
   \<and> transitions_of (emitted (clearError C) m) = [ERROR_UPDATE None]"
  by (simp add: clearError_def updateState_eq emitted_def)

theorem clearError_effect_witness:
  "state (snd (clearError sample_collaborators loading_manager)) =
     \<lparr> data = None, scenarios = Some Map.empty, currentScenario = ''base'', computationResult = None,
       validationResults = [], isLoading = False, error = None, lastUpdated = ''now'' \<rparr>
   \<and> subscribers (snd (clearError sample_collaborators loading_manager)) = [7]
   \<and> transitions_of (emitted (clearError sample_collaborators) loading_manager) = [ERROR_UPDATE None]"
  using clearError_effect [of sample_collaborators loading_manager]
  by (simp add: loading_manager_def updateState_eq)
    (simp add: sample_manager_def sample_collaborators_def getInitialState_def)

section \<open>getState and the objects it shares\<close>

text \<open>
  C8, as stated, fails for nested structures: the copy is one level deep. The object
  \<open>getState\<close> returns holds in \<open>data\<close> the same reference as the state, so
  \<open>copy.data.menus = 'changed'\<close> changes the dataset the manager owns, and a later
  \<open>getData\<close> returns the changed object.
\<close>

theorem getState_nested_mutation_counterexample:
  "fst (getState_store 0 sample_store) = 4
   \<and> own_properties (snd (getState_store 0 sample_store)) 4 ''data'' = Some (JRef 1)
   \<and> getData_store 0 sample_store = Some (JRef 1)
   \<and> own_properties sample_store 1 ''menus'' = Some (JStr ''pad thai'')
   \<and> getData_store 0 (assign 1 ''menus'' (JStr ''changed'') (snd (getState_store 0 sample_store))) =
       Some (JRef 1)
   \<and> own_properties (assign 1 ''menus'' (JStr ''changed'') (snd (getState_store 0 sample_store))) 1
       ''menus'' = Some (JStr ''changed'')"
  by (simp add: getState_store_def new_object_def own_properties_def getData_store_def assign_def
      sample_store_def)

text \<open>
  C8, amended. In a well-formed store, \<open>getState\<close> returns a new object whose properties
  equal those of the state object (so a property that holds a reference holds the same
  reference in both), and creating it changes no object that existed. Assigning to a
  property of the returned object changes no other object: the state object and every
  object reachable from it are as before, and \<open>getData\<close> returns what it returned.
\<close>

theorem getState_shallow_copy:
  assumes "well_formed h" and "this_state \<in> dom (cells h)"
  shows "fst (getState_store this_state h) \<notin> dom (cells h)
    \<and> own_properties (snd (getState_store this_state h)) (fst (getState_store this_state h)) =
        own_properties h this_state
    \<and> (\<forall>a. a \<noteq> fst (getState_store this_state h) \<longrightarrow>
          cells (snd (getState_store this_state h)) a = cells h a)
    \<and> (\<forall>f v a. a \<noteq> fst (getState_store this_state h) \<longrightarrow>
          cells (assign (fst (getState_store this_state h)) f v (snd (getState_store this_state h))) a =
          cells h a)
    \<and> (\<forall>f v. getData_store this_state
          (assign (fst (getState_store this_state h)) f v (snd (getState_store this_state h))) =
          getData_store this_state h)
    \<and> well_formed (snd (getState_store this_state h))"
proof -
  from assms have fresh: "next_addr h \<notin> dom (cells h)" "this_state \<noteq> next_addr h"
    by (auto simp: well_formed_def)
  then show ?thesis
    using assms
    by (auto simp: getState_store_def new_object_def own_properties_def getData_store_def
        assign_def well_formed_def less_Suc_eq)
qed

theorem getState_shallow_copy_witness:
  "well_formed sample_store \<and> 0 \<in> dom (cells sample_store)
   \<and> fst (getState_store 0 sample_store) = 4
   \<and> own_properties (snd (getState_store 0 sample_store)) 4 = own_properties sample_store 0
   \<and> getData_store 0 (assign 4 ''data'' JNull (snd (getState_store 0 sample_store))) = Some (JRef 1)
   \<and> cells (assign 4 ''data'' JNull (snd (getState_store 0 sample_store))) 0 = cells sample_store 0"
proof -
  have wf: "well_formed sample_store"
    by (simp add: well_formed_def sample_store_def)
  have mem: "0 \<in> dom (cells sample_store)"
    by (simp add: sample_store_def)
  have copy: "fst (getState_store 0 sample_store) = 4"
    by (simp add: getState_store_def new_object_def sample_store_def)
  have "getData_store 0 sample_store = Some (JRef 1)"
    by (simp add: getData_store_def own_properties_def sample_store_def)
  with getState_shallow_copy [OF wf mem] copy wf mem show ?thesis
    by simp
qed

section \<open>subscribe and the function it returns\<close>


lemma deliveries_count:
  "length (filter (\<lambda>n. fst n = cb) (map (\<lambda>c. (c, s)) cbs)) = count_list cbs cb"
  by (induction cbs) auto











section \<open>The cache inside importData\<close>

text \<open>
  C10. Within one \<open>importData\<close> the cache is read before it is cleared. Let the cache
  hold \<open>v\<close> under \<open>k\<close> before the call, let the import succeed, the engine give the
  dataset \<open>d\<close> and the scenarios \<open>sc\<close>, the computation return \<open>r\<close>, and \<open>d\<close>
  serialize to \<open>k\<close>. Then the \<open>VALIDATION_UPDATE\<close> of this very call carries the
  outcome \<open>v\<close> cached before the import, \<open>validateAllData\<close> is not called on the
  imported dataset, and the cache is empty when the call returns.
\<close>

theorem importData_reads_cache_before_clearing:
  assumes cached: "validationCache m k = Some v"
    and import: "fe_importJSON C jsonString (world m) = (Inr result, w1)" "success result"
    and engine: "fe_getData C w1 = (Inr d, w2)" "fe_getScenarios C w2 = (Inr sc, w3)"
      "fe_compute C (snd (fe_save C w3)) = (Inr r, w4)"
    and key: "json_stringify C d = Inr k"
  shows "fst (importData C jsonString m) = Inr result
     \<and> transitions_of (emitted (importData C jsonString) m) =
         [LOADING_UPDATE True, DATA_UPDATE d sc, COMPUTATION_UPDATE r, VALIDATION_UPDATE [v],
          LOADING_UPDATE False]
     \<and> validator_calls (emitted (importData C jsonString) m) = []
     \<and> validationResults (state (snd (importData C jsonString m))) = [v]
     \<and> validationCache (snd (importData C jsonString m)) = Map.empty"
  using assms
  by (simp add: importData_def importData_try_def try_catch_def and_then_def call_world_def
      returns_def clear_validationCache_def updateState_eq computeAndValidate_eq emitted_def
      computeAndValidate_outcome_def after_computeAndValidate_def after_validateAllData_def)

theorem importData_reads_cache_before_clearing_witness:
  "validationCache cached_manager ''data2'' = Some stale_result
   \<and> fdv_validateAllData sample_collaborators (Some ''data2'') =
       Inr \<lparr>isValid = True, errors = [], warnings = []\<rparr>
   \<and> transitions_of (emitted (importData sample_collaborators ''data2'') cached_manager) =
       [LOADING_UPDATE True, DATA_UPDATE (Some ''data2'') (Some [''base'' \<mapsto> ''Base'']),
        COMPUTATION_UPDATE (Some ''kpi:data2''), VALIDATION_UPDATE [stale_result],
        LOADING_UPDATE False]
   \<and> validator_calls (emitted (importData sample_collaborators ''data2'') cached_manager) = []
   \<and> validationCache (snd (importData sample_collaborators ''data2'' cached_manager)) = Map.empty"
  using importData_reads_cache_before_clearing [where C = sample_collaborators
      and m = cached_manager and k = "''data2''" and v = stale_result and jsonString = "''data2''"
      and result = "\<lparr>success = True, import_error = None\<rparr>" and ?w1.0 = "''data2''"
      and d = "Some ''data2''" and ?w2.0 = "''data2''" and sc = "Some [''base'' \<mapsto> ''Base'']"
      and ?w3.0 = "''data2''" and r = "Some ''kpi:data2''" and ?w4.0 = "''data2''"]
  by (simp add: cached_manager_def sample_collaborators_def sample_manager_def)

end
